theory Spec2Isabelle
  imports Complex_Main "HOL-Library.Word"
begin

section \<open>PC814 zero-crossing library: data model\<close>

text \<open>
  The library is C for 32-bit microcontrollers. \<open>uint32_t\<close> is \<open>32 word\<close>: \<open>+\<close>, \<open>-\<close> and
  \<open>*\<close> wrap, \<open>div\<close> and the order are the unsigned ones. \<open>unsigned long\<close> (the constants
  \<open>1000000UL\<close>) has 32 bits as well on these targets, so the products with it wrap at
  \<open>2 ^ 32\<close>; where a product stays below \<open>2 ^ 32\<close> the width makes no difference
  (\<open>ticks_to_us_no_wrap\<close>), and that is the case at every concrete input below.

  A C \<open>float\<close> is a real number here, and every floating-point operation that rounds
  takes the rounding as a parameter \<open>rnd\<close>: the C sum \<open>a + b\<close> is \<open>rnd (a + b)\<close>.
  Comparisons, \<open>fabsf\<close> and \<open>fmodf\<close> are exact in C and are exact here. Exact arithmetic is
  the instance \<open>exact\<close> and the single precision of the targets the instance \<open>binary32\<close>;
  infinities and NaN are not represented.
\<close>

type_synonym u32 = "32 word"

datatype pc814_status_t = PC814_OK | PC814_ERROR | PC814_NOT_INITIALIZED | PC814_INVALID_PARAM

datatype pc814_pull_t = PC814_PULL_UP | PC814_PULL_DOWN

datatype pc814_edge_t = PC814_EDGE_RISING | PC814_EDGE_FALLING

record pc814_data_t =
  period_us :: u32
  frequency_hz :: u32
  timestamp_us :: u32
  count :: u32
  valid :: bool

record pc814_statistics_t =
  total_zc_count :: u32
  valid_zc_count :: u32
  invalid_zc_count :: u32
  min_period_us :: u32
  max_period_us :: u32
  avg_period_us :: u32
  min_frequency_hz :: real
  max_frequency_hz :: real
  avg_frequency_hz :: real

text \<open>
  \<open>pc814_port_t\<close> is a table of function pointers. A field is \<open>True\<close> when the pointer is
  set and \<open>False\<close> when it is \<open>NULL\<close>. What the three reading callbacks return when they
  are called is the hardware's answer at that moment: \<open>hw_reading\<close>, an input of every
  call that reads the timer.
\<close>

record pc814_port_t =
  timer_get_capture_value :: bool
  timer_get_frequency :: bool
  timer_reset_capture :: bool
  timer_start_capture :: bool
  timer_stop_capture :: bool
  gpio_set_pull_up :: bool
  gpio_set_pull_down :: bool
  get_time_us :: bool
  delay_us :: bool
  delay_ms :: bool

record hw_reading =
  capture_value :: u32
  timer_frequency :: u32
  time_us :: u32

text \<open>
  The handle. \<open>port\<close> is a pointer (\<open>None\<close> is \<open>NULL\<close>); \<open>callback\<close> is \<open>True\<close> when a
  listener is registered.
\<close>

record pc814_handle_t =
  port :: "pc814_port_t option"
  pull_config :: pc814_pull_t
  edge_type :: pc814_edge_t
  data :: pc814_data_t
  last_capture_time :: u32
  last_capture_value :: u32
  initialized :: bool
  expected_frequency :: u32
  frequency_tolerance :: real
  callback :: bool
  statistics :: pc814_statistics_t
  period_sum :: u32
  period_count :: u32

section \<open>Tick delta and timestamp difference\<close>

text \<open>
  \<open>pc814_process_capture\<close>, lines 100 to 107: the tick delta between the previous and the
  current raw counter value.
\<close>

definition capture_period_ticks :: "u32 \<Rightarrow> u32 \<Rightarrow> u32" where
  "capture_period_ticks last_capture current_capture =
     (if current_capture > last_capture
      then current_capture - last_capture
      else (0xFFFFFFFF - last_capture) + current_capture)"

text \<open>
  \<open>calculate_phase_angle\<close>, lines 31 to 39: the difference of two timestamps.
\<close>

definition phase_time_diff :: "u32 \<Rightarrow> u32 \<Rightarrow> u32" where
  "phase_time_diff time1 time2 =
     (if time2 \<ge> time1
      then time2 - time1
      else (0xFFFFFFFF - time1) + time2 + 1)"

section \<open>Channel capture processor (PC814.c)\<close>

text \<open>
  \<open>validate_frequency\<close>. The C expression \<open>abs((int32_t)freq - (int32_t)expected)\<close> is
  32-bit signed arithmetic, written out here with its two's complement wrap-around: the
  difference is the word \<open>freq - expected\<close> read as signed, and \<open>abs\<close> negates a negative
  one. Neither wraps when both arguments are below \<open>2 ^ 31\<close>.
\<close>

definition validate_frequency :: "(real \<Rightarrow> real) \<Rightarrow> u32 \<Rightarrow> u32 \<Rightarrow> real \<Rightarrow> bool" where
  "validate_frequency rnd freq expected tolerance =
     (if freq = 0 \<or> expected = 0 then False
      else
        let d = freq - expected;
            diff = rnd (real_of_int (if sint d < 0 then sint (- d) else sint d));
            percent = rnd (rnd (diff / rnd (real (unat expected))) * 100)
        in percent \<le> tolerance)"

text \<open>The handle after \<open>memset(handle, 0, sizeof(pc814_handle_t))\<close>.\<close>

definition zero_data :: pc814_data_t where
  "zero_data = \<lparr>period_us = 0, frequency_hz = 0, timestamp_us = 0, count = 0, valid = False\<rparr>"

definition zero_statistics :: pc814_statistics_t where
  "zero_statistics =
     \<lparr>total_zc_count = 0, valid_zc_count = 0, invalid_zc_count = 0,
      min_period_us = 0, max_period_us = 0, avg_period_us = 0,
      min_frequency_hz = 0, max_frequency_hz = 0, avg_frequency_hz = 0\<rparr>"

definition zero_handle :: pc814_handle_t where
  "zero_handle =
     \<lparr>port = None, pull_config = PC814_PULL_UP, edge_type = PC814_EDGE_RISING,
      data = zero_data, last_capture_time = 0, last_capture_value = 0,
      initialized = False, expected_frequency = 0, frequency_tolerance = 0,
      callback = False, statistics = zero_statistics, period_sum = 0, period_count = 0\<rparr>"

text \<open>
  \<open>pc814_init\<close>. The result is the status, the handle's memory after the call, and the
  GPIO pull callback that was called, if any.
\<close>

definition pc814_init ::
  "pc814_handle_t option \<Rightarrow> pc814_port_t option \<Rightarrow> pc814_pull_t \<Rightarrow> pc814_edge_t \<Rightarrow>
     pc814_status_t \<times> pc814_handle_t option \<times> pc814_pull_t option" where
  "pc814_init handle port_arg pull edge =
     (case (handle, port_arg) of
        (Some _, Some p) \<Rightarrow>
          (PC814_OK,
           Some (zero_handle
             \<lparr>port := Some p, pull_config := pull, edge_type := edge,
              expected_frequency := 50, frequency_tolerance := 5,
              initialized := True\<rparr>),
           (if pull = PC814_PULL_UP
            then (if gpio_set_pull_up p then Some PC814_PULL_UP else None)
            else (if gpio_set_pull_down p then Some PC814_PULL_DOWN else None)))
      | _ \<Rightarrow> (PC814_ERROR, handle, None))"

text \<open>\<open>pc814_process_capture\<close>, lines 120 to 124: the sample is written.\<close>

definition update_data :: "pc814_handle_t \<Rightarrow> u32 \<Rightarrow> u32 \<Rightarrow> u32 \<Rightarrow> bool \<Rightarrow> pc814_handle_t" where
  "update_data h p_us freq_hz current_time freq_valid =
     h\<lparr>data := (data h)
         \<lparr>period_us := p_us, frequency_hz := freq_hz, timestamp_us := current_time,
          count := count (data h) + 1, valid := freq_valid\<rparr>\<rparr>"

text \<open>
  Lines 128 to 154: the statistics after a valid sample. The average frequency divides by
  the average period as a float: where that is zero C yields an infinity, which this
  model does not represent (the quotient reads as \<open>0\<close>).
\<close>

definition record_valid_sample :: "(real \<Rightarrow> real) \<Rightarrow> pc814_handle_t \<Rightarrow> u32 \<Rightarrow> u32 \<Rightarrow> pc814_handle_t" where
  "record_valid_sample rnd h p_us freq_hz =
     (let st = statistics h;
          st = st\<lparr>total_zc_count := total_zc_count st + 1,
                  valid_zc_count := valid_zc_count st + 1\<rparr>;
          st = (if min_period_us st = 0 \<or> p_us < min_period_us st
                then st\<lparr>min_period_us := p_us\<rparr> else st);
          st = (if p_us > max_period_us st then st\<lparr>max_period_us := p_us\<rparr> else st);
          freq_float = rnd (real (unat freq_hz));
          st = (if min_frequency_hz st = 0 \<or> freq_float < min_frequency_hz st
                then st\<lparr>min_frequency_hz := freq_float\<rparr> else st);
          st = (if freq_float > max_frequency_hz st
                then st\<lparr>max_frequency_hz := freq_float\<rparr> else st);
          psum = period_sum h + p_us;
          pcount = period_count h + 1;
          st = (if pcount > 0
                then st\<lparr>avg_period_us := psum div pcount,
                        avg_frequency_hz := rnd (1000000 / rnd (real (unat (psum div pcount))))\<rparr>
                else st)
      in h\<lparr>statistics := st, period_sum := psum, period_count := pcount\<rparr>)"

text \<open>Lines 156 and 157: the statistics after an invalid sample.\<close>

definition record_invalid_sample :: "pc814_handle_t \<Rightarrow> pc814_handle_t" where
  "record_invalid_sample h =
     h\<lparr>statistics := (statistics h)
         \<lparr>total_zc_count := total_zc_count (statistics h) + 1,
          invalid_zc_count := invalid_zc_count (statistics h) + 1\<rparr>\<rparr>"

text \<open>
  What a call of \<open>pc814_process_capture\<close> does: it returns a status, with the handle's
  memory after the call and the sample passed to the listener (if the listener was
  called; the listener only observes), or it executes the division \<open>1000000UL / period_us\<close>
  with \<open>period_us = 0\<close>, which is undefined behaviour in C and a trap or an arbitrary
  quotient on the targets.
\<close>

datatype capture_outcome =
    Returned pc814_status_t "pc814_handle_t option" "pc814_data_t option"
  | Division_By_Zero

definition pc814_process_capture ::
  "(real \<Rightarrow> real) \<Rightarrow> pc814_handle_t option \<Rightarrow> hw_reading \<Rightarrow> capture_outcome" where
  "pc814_process_capture rnd handle hw =
     (case handle of
        None \<Rightarrow> Returned PC814_NOT_INITIALIZED None None
      | Some h \<Rightarrow>
         (case port h of
            None \<Rightarrow> Returned PC814_NOT_INITIALIZED handle None
          | Some p \<Rightarrow>
             if \<not> initialized h then Returned PC814_NOT_INITIALIZED handle None
             else if \<not> timer_get_capture_value p \<or> \<not> timer_get_frequency p
               then Returned PC814_ERROR handle None
             else
               let current_capture = capture_value hw;
                   timer_freq = timer_frequency hw
               in
                 if current_capture = 0 \<or> timer_freq = 0
                 then Returned PC814_ERROR handle None
                 else
                   let current_time = (if get_time_us p then time_us hw else 0) in
                     if last_capture_value h \<noteq> 0
                     then
                       let period_ticks = capture_period_ticks (last_capture_value h) current_capture;
                           p_us = (period_ticks * 1000000) div timer_freq
                       in
                         if p_us = 0 then Division_By_Zero
                         else
                           let freq_hz = 1000000 div p_us;
                               freq_valid = validate_frequency rnd freq_hz
                                  (expected_frequency h) (frequency_tolerance h);
                               h1 = update_data h p_us freq_hz current_time freq_valid;
                               h2 = (if freq_valid
                                     then record_valid_sample rnd h1 p_us freq_hz
                                     else record_invalid_sample h1)
                           in Returned PC814_OK
                                (Some (h2\<lparr>last_capture_value := current_capture,
                                           last_capture_time := current_time\<rparr>))
                                (if callback h2 \<and> freq_valid then Some (data h2) else None)
                     else
                       Returned PC814_OK
                         (Some (h\<lparr>last_capture_value := current_capture,
                                  last_capture_time := current_time\<rparr>))
                         None))"

text \<open>The setters and resets. Each returns the handle's memory after the call.\<close>

definition pc814_set_expected_frequency :: "pc814_handle_t option \<Rightarrow> u32 \<Rightarrow> pc814_handle_t option" where
  "pc814_set_expected_frequency handle freq =
     (case handle of
        Some h \<Rightarrow> if freq = 50 \<or> freq = 60 then Some (h\<lparr>expected_frequency := freq\<rparr>) else handle
      | None \<Rightarrow> handle)"

definition pc814_set_frequency_tolerance :: "pc814_handle_t option \<Rightarrow> real \<Rightarrow> pc814_handle_t option" where
  "pc814_set_frequency_tolerance handle tolerance =
     (case handle of
        Some h \<Rightarrow> if tolerance > 0 \<and> tolerance \<le> 50
                  then Some (h\<lparr>frequency_tolerance := tolerance\<rparr>) else handle
      | None \<Rightarrow> handle)"

definition pc814_reset :: "pc814_handle_t option \<Rightarrow> pc814_handle_t option" where
  "pc814_reset handle =
     (case handle of
        None \<Rightarrow> None
      | Some h \<Rightarrow>
          Some (h\<lparr>last_capture_value := 0, last_capture_time := 0,
                  data := (data h)\<lparr>count := 0, valid := False\<rparr>\<rparr>))"

definition pc814_set_callback :: "pc814_handle_t option \<Rightarrow> bool \<Rightarrow> pc814_handle_t option" where
  "pc814_set_callback handle cb =
     (case handle of Some h \<Rightarrow> Some (h\<lparr>callback := cb\<rparr>) | None \<Rightarrow> handle)"

definition pc814_reset_statistics :: "pc814_handle_t option \<Rightarrow> pc814_handle_t option" where
  "pc814_reset_statistics handle =
     (case handle of
        None \<Rightarrow> None
      | Some h \<Rightarrow> Some (h\<lparr>statistics := zero_statistics, period_sum := 0, period_count := 0\<rparr>))"

text \<open>
  A sequence of capture calls on one handle, each with the hardware's reading at that
  call. The run has no result once a call has divided by zero.
\<close>

fun captures :: "(real \<Rightarrow> real) \<Rightarrow> pc814_handle_t \<Rightarrow> hw_reading list \<Rightarrow> pc814_handle_t option" where
  "captures rnd h [] = Some h"
| "captures rnd h (r # rs) =
     (case pc814_process_capture rnd (Some h) r of
        Returned st (Some h') n \<Rightarrow> captures rnd h' rs
      | _ \<Rightarrow> None)"

text \<open>\<open>pc814_read_data\<close>: the status and the sample copied out (the \<open>data\<close> pointer is not \<open>NULL\<close>).\<close>

definition pc814_read_data :: "pc814_handle_t option \<Rightarrow> pc814_status_t \<times> pc814_data_t option" where
  "pc814_read_data handle =
     (case handle of
        None \<Rightarrow> (PC814_ERROR, None)
      | Some h \<Rightarrow> if \<not> initialized h then (PC814_ERROR, None) else (PC814_OK, Some (data h)))"

section \<open>Three-phase layer (PC814_ThreePhase.c)\<close>

datatype pc814_sequence_t =
  PC814_SEQUENCE_ABC | PC814_SEQUENCE_ACB | PC814_SEQUENCE_UNKNOWN | PC814_SEQUENCE_ERROR

text \<open>
  The two structures of PC814_ThreePhase.h. Their fields \<open>valid\<close> and \<open>initialized\<close> bear
  the names of fields of \<open>pc814_data_t\<close> and \<open>pc814_handle_t\<close>; from here on the plain
  names are the three-phase fields and the earlier ones are written
  \<open>pc814_data_t.valid\<close> and \<open>pc814_handle_t.initialized\<close>. The three channel pointers hold
  the channel's handle as it is when the three-phase function runs.
\<close>

record pc814_phase_relationship_t =
  phase_a_zc_time :: u32
  phase_b_zc_time :: u32
  phase_c_zc_time :: u32
  phase_ab_angle :: real
  phase_bc_angle :: real
  phase_ca_angle :: real
  phase_a_freq :: u32
  phase_b_freq :: u32
  phase_c_freq :: u32
  valid :: bool

record pc814_threephase_t =
  phase_a :: "pc814_handle_t option"
  phase_b :: "pc814_handle_t option"
  phase_c :: "pc814_handle_t option"
  sequence :: pc814_sequence_t
  relationship :: pc814_phase_relationship_t
  last_update_time :: u32
  sequence_tolerance :: real
  initialized :: bool

text \<open>
  \<open>fmodf\<close>: the remainder of the quotient truncated towards zero; exact in C.
\<close>

definition fmodf :: "real \<Rightarrow> real \<Rightarrow> real" where
  "fmodf x y = x - y * real_of_int (if 0 \<le> x / y then \<lfloor>x / y\<rfloor> else \<lceil>x / y\<rceil>)"

definition calculate_phase_angle :: "(real \<Rightarrow> real) \<Rightarrow> u32 \<Rightarrow> u32 \<Rightarrow> u32 \<Rightarrow> real" where
  "calculate_phase_angle rnd time1 time2 p_us =
     (if p_us = 0 then 0
      else
        let time_diff = phase_time_diff time1 time2;
            time_diff = time_diff mod p_us;
            angle = rnd (rnd (rnd (real (unat time_diff)) / rnd (real (unat p_us))) * 360);
            angle = (if angle \<ge> 360 then fmodf angle 360 else angle);
            angle = (if angle < 0 then rnd (angle + 360) else angle)
        in angle)"

definition is_angle_120 :: "(real \<Rightarrow> real) \<Rightarrow> real \<Rightarrow> real \<Rightarrow> bool" where
  "is_angle_120 rnd angle tolerance =
     (let diff_120 = \<bar>rnd (angle - 120)\<bar>;
          diff_240 = \<bar>rnd (angle - 240)\<bar>;
          diff_240 = (if diff_240 > 180 then rnd (360 - diff_240) else diff_240)
      in diff_120 \<le> tolerance \<or> diff_240 \<le> tolerance)"

definition is_angle_240 :: "(real \<Rightarrow> real) \<Rightarrow> real \<Rightarrow> real \<Rightarrow> bool" where
  "is_angle_240 rnd angle tolerance =
     (let diff_240 = \<bar>rnd (angle - 240)\<bar>;
          diff_240 = (if diff_240 > 180 then rnd (360 - diff_240) else diff_240);
          diff_120 = \<bar>rnd (angle - 120)\<bar>
      in diff_240 \<le> tolerance \<and> diff_120 > tolerance)"

definition zero_relationship :: pc814_phase_relationship_t where
  "zero_relationship =
     \<lparr>phase_a_zc_time = 0, phase_b_zc_time = 0, phase_c_zc_time = 0,
      phase_ab_angle = 0, phase_bc_angle = 0, phase_ca_angle = 0,
      phase_a_freq = 0, phase_b_freq = 0, phase_c_freq = 0, valid = False\<rparr>"

definition pc814_threephase_init ::
  "pc814_threephase_t option \<Rightarrow> pc814_handle_t option \<Rightarrow> pc814_handle_t option \<Rightarrow>
     pc814_handle_t option \<Rightarrow> pc814_status_t \<times> pc814_threephase_t option" where
  "pc814_threephase_init threephase a b c =
     (if threephase = None \<or> a = None \<or> b = None \<or> c = None then (PC814_ERROR, threephase)
      else (PC814_OK,
            Some \<lparr>phase_a = a, phase_b = b, phase_c = c,
                  sequence = PC814_SEQUENCE_UNKNOWN, relationship = zero_relationship,
                  last_update_time = 0, sequence_tolerance = 10, initialized = True\<rparr>))"

definition pc814_threephase_detect_sequence ::
  "(real \<Rightarrow> real) \<Rightarrow> pc814_threephase_t option \<Rightarrow> pc814_sequence_t" where
  "pc814_threephase_detect_sequence rnd threephase =
     (case threephase of
        None \<Rightarrow> PC814_SEQUENCE_ERROR
      | Some t \<Rightarrow>
          if \<not> valid (relationship t) then PC814_SEQUENCE_ERROR
          else
            let ab_angle = phase_ab_angle (relationship t);
                bc_angle = phase_bc_angle (relationship t);
                ca_angle = phase_ca_angle (relationship t);
                tolerance = sequence_tolerance t;
                ab_120 = is_angle_120 rnd ab_angle tolerance;
                bc_120 = is_angle_120 rnd bc_angle tolerance;
                ca_120 = is_angle_120 rnd ca_angle tolerance
            in
              if ab_120 \<and> bc_120 \<and> ca_120 then PC814_SEQUENCE_ABC
              else
                let ab_240 = is_angle_240 rnd ab_angle tolerance;
                    bc_240 = is_angle_240 rnd bc_angle tolerance
                in
                  if (ab_240 \<or> bc_240) \<and> ca_120 then PC814_SEQUENCE_ACB
                  else if ab_240 \<and> bc_240 then PC814_SEQUENCE_ACB
                  else PC814_SEQUENCE_ERROR)"

text \<open>
  \<open>pc814_threephase_process\<close>. The sequence is detected (line 147) before the
  relationship is marked valid (line 149).
\<close>

definition pc814_threephase_process ::
  "(real \<Rightarrow> real) \<Rightarrow> pc814_threephase_t option \<Rightarrow> pc814_status_t \<times> pc814_threephase_t option" where
  "pc814_threephase_process rnd threephase =
     (case threephase of
        None \<Rightarrow> (PC814_ERROR, None)
      | Some t \<Rightarrow>
          if \<not> initialized t then (PC814_ERROR, threephase)
          else
            (case (pc814_read_data (phase_a t), pc814_read_data (phase_b t),
                   pc814_read_data (phase_c t)) of
               ((PC814_OK, Some data_a), (PC814_OK, Some data_b), (PC814_OK, Some data_c)) \<Rightarrow>
                 if \<not> pc814_data_t.valid data_a \<or> \<not> pc814_data_t.valid data_b
                    \<or> \<not> pc814_data_t.valid data_c
                 then (PC814_ERROR, threephase)
                 else
                   let avg_period = (period_us data_a + period_us data_b + period_us data_c) div 3;
                       r = (relationship t)
                         \<lparr>phase_a_zc_time := timestamp_us data_a,
                          phase_b_zc_time := timestamp_us data_b,
                          phase_c_zc_time := timestamp_us data_c,
                          phase_a_freq := frequency_hz data_a,
                          phase_b_freq := frequency_hz data_b,
                          phase_c_freq := frequency_hz data_c,
                          phase_ab_angle := calculate_phase_angle rnd
                             (timestamp_us data_a) (timestamp_us data_b) avg_period,
                          phase_bc_angle := calculate_phase_angle rnd
                             (timestamp_us data_b) (timestamp_us data_c) avg_period,
                          phase_ca_angle := calculate_phase_angle rnd
                             (timestamp_us data_c) (timestamp_us data_a) avg_period\<rparr>;
                       t1 = t\<lparr>relationship := r\<rparr>;
                       t2 = t1\<lparr>sequence := pc814_threephase_detect_sequence rnd (Some t1)\<rparr>
                   in (PC814_OK,
                       Some (t2\<lparr>relationship := (relationship t2)\<lparr>valid := True\<rparr>,
                                last_update_time := timestamp_us data_a\<rparr>))
             | _ \<Rightarrow> (PC814_ERROR, threephase)))"

text \<open>
  \<open>pc814_threephase_get_swap_recommendation\<close>. The three output pointers are \<open>None\<close> when
  \<open>NULL\<close> and hold the pointed-to flag otherwise; the result is the status and the three
  flags after the call.
\<close>

definition pc814_threephase_get_swap_recommendation ::
  "(real \<Rightarrow> real) \<Rightarrow> pc814_threephase_t option \<Rightarrow> bool option \<Rightarrow> bool option \<Rightarrow> bool option \<Rightarrow>
     pc814_status_t \<times> bool option \<times> bool option \<times> bool option" where
  "pc814_threephase_get_swap_recommendation rnd threephase swap_ab swap_bc swap_ca =
     (case threephase of
        None \<Rightarrow> (PC814_ERROR, swap_ab, swap_bc, swap_ca)
      | Some t \<Rightarrow>
          if swap_ab = None \<or> swap_bc = None \<or> swap_ca = None
          then (PC814_ERROR, swap_ab, swap_bc, swap_ca)
          else if \<not> valid (relationship t)
          then (PC814_ERROR, Some False, Some False, Some False)
          else if sequence t = PC814_SEQUENCE_ACB
          then (PC814_OK, Some False, Some True, Some False)
          else if sequence t = PC814_SEQUENCE_ERROR
          then
            let ab_angle = phase_ab_angle (relationship t);
                bc_angle = phase_bc_angle (relationship t);
                ca_angle = phase_ca_angle (relationship t);
                tolerance = sequence_tolerance t
            in
              if is_angle_120 rnd ab_angle tolerance \<and> is_angle_120 rnd ca_angle tolerance
              then (PC814_OK, Some False, Some True, Some False)
              else if is_angle_120 rnd bc_angle tolerance \<and> is_angle_120 rnd ca_angle tolerance
              then (PC814_OK, Some True, Some False, Some False)
              else if is_angle_120 rnd ab_angle tolerance \<and> is_angle_120 rnd bc_angle tolerance
              then (PC814_OK, Some False, Some False, Some True)
              else (PC814_OK, Some False, Some False, Some False)
          else (PC814_OK, Some False, Some False, Some False))"

definition pc814_threephase_get_imbalance :: "(real \<Rightarrow> real) \<Rightarrow> pc814_threephase_t option \<Rightarrow> real" where
  "pc814_threephase_get_imbalance rnd threephase =
     (case threephase of
        None \<Rightarrow> - 1
      | Some t \<Rightarrow>
          if \<not> valid (relationship t) then - 1
          else
            let ab_angle = phase_ab_angle (relationship t);
                bc_angle = phase_bc_angle (relationship t);
                ca_angle = phase_ca_angle (relationship t);
                ab_dev = \<bar>rnd (ab_angle - 120)\<bar>;
                bc_dev = \<bar>rnd (bc_angle - 120)\<bar>;
                ca_dev = \<bar>rnd (ca_angle - 120)\<bar>;
                avg_dev = rnd (rnd (rnd (ab_dev + bc_dev) + ca_dev) / 3);
                imbalance = rnd (rnd (avg_dev / 120) * 100)
            in imbalance)"

section \<open>Specification-side notions and example states\<close>

text \<open>Exact arithmetic: the rounding that changes nothing.\<close>

definition exact :: "real \<Rightarrow> real" where
  "exact x = x"

text \<open>
  What the proofs below use of a rounding to single precision, each a property of IEEE 754
  binary32 rounding to nearest: it is monotone, it leaves the integers up to \<open>2 ^ 24\<close>
  unchanged, and in the range of the normal numbers it moves a value by at most that
  value divided by \<open>2 ^ 24\<close>.
\<close>

definition float_rounding :: "(real \<Rightarrow> real) \<Rightarrow> bool" where
  "float_rounding rnd \<longleftrightarrow>
     mono rnd \<and>
     (\<forall>n::int. \<bar>n\<bar> \<le> 2 ^ 24 \<longrightarrow> rnd (real_of_int n) = real_of_int n) \<and>
     (\<forall>x. 1 / 2 ^ 126 \<le> \<bar>x\<bar> \<and> \<bar>x\<bar> \<le> 2 ^ 127 \<longrightarrow> \<bar>rnd x - x\<bar> \<le> \<bar>x\<bar> / 2 ^ 24)"

text \<open>
  The rounding of the targets: IEEE 754 binary32, to nearest, ties to even. \<open>binade a\<close> is
  the exponent \<open>e\<close> of the binade \<open>2 ^ e \<le> a < 2 ^ (e + 1)\<close>, kept within \<open>- 126\<close> and \<open>127\<close> (the
  subnormal numbers share the spacing of the smallest normal binade); a value is
  rounded to the nearest multiple of \<open>2 ^ (e - 23)\<close>. Magnitudes from \<open>2 ^ 128\<close> on, which
  IEEE rounds to an infinity, are outside this model; none arises below.
\<close>

definition pow2 :: "int \<Rightarrow> real" where
  "pow2 e = (if 0 \<le> e then 2 ^ nat e else 1 / 2 ^ nat (- e))"





text \<open>A port with every callback set, and the handle that \<open>pc814_init\<close> makes with it.\<close>

definition example_port :: pc814_port_t where
  "example_port =
     \<lparr>timer_get_capture_value = True, timer_get_frequency = True,
      timer_reset_capture = True, timer_start_capture = True, timer_stop_capture = True,
      gpio_set_pull_up = True, gpio_set_pull_down = True, get_time_us = True,
      delay_us = True, delay_ms = True\<rparr>"

definition init_handle :: pc814_handle_t where
  "init_handle =
     \<lparr>port = Some example_port, pull_config = PC814_PULL_UP, edge_type = PC814_EDGE_RISING,
      data = zero_data, last_capture_time = 0, last_capture_value = 0,
      initialized = True, expected_frequency = 50, frequency_tolerance = 5,
      callback = False, statistics = zero_statistics, period_sum = 0, period_count = 0\<rparr>"

text \<open>
  The classifier as the specification words it: \<open>near_120\<close> with the wrapped distance to
  240 written as a minimum, \<open>near_240\<close>, and the decision order in which the first match
  wins. The subtractions are the code's floating-point subtractions.
\<close>

definition wrapped_distance_240 :: "(real \<Rightarrow> real) \<Rightarrow> real \<Rightarrow> real" where
  "wrapped_distance_240 rnd angle =
     min \<bar>rnd (angle - 240)\<bar> (rnd (360 - \<bar>rnd (angle - 240)\<bar>))"

definition near_120 :: "(real \<Rightarrow> real) \<Rightarrow> real \<Rightarrow> real \<Rightarrow> bool" where
  "near_120 rnd angle tolerance \<longleftrightarrow>
     \<bar>rnd (angle - 120)\<bar> \<le> tolerance \<or> wrapped_distance_240 rnd angle \<le> tolerance"

definition near_240 :: "(real \<Rightarrow> real) \<Rightarrow> real \<Rightarrow> real \<Rightarrow> bool" where
  "near_240 rnd angle tolerance \<longleftrightarrow>
     wrapped_distance_240 rnd angle \<le> tolerance \<and> \<bar>rnd (angle - 120)\<bar> > tolerance"

definition classify :: "(real \<Rightarrow> real) \<Rightarrow> real \<Rightarrow> real \<Rightarrow> real \<Rightarrow> real \<Rightarrow> pc814_sequence_t" where
  "classify rnd ab bc ca tolerance =
     (if near_120 rnd ab tolerance \<and> near_120 rnd bc tolerance \<and> near_120 rnd ca tolerance
      then PC814_SEQUENCE_ABC
      else if (near_240 rnd ab tolerance \<or> near_240 rnd bc tolerance) \<and> near_120 rnd ca tolerance
      then PC814_SEQUENCE_ACB
      else if near_240 rnd ab tolerance \<and> near_240 rnd bc tolerance
      then PC814_SEQUENCE_ACB
      else PC814_SEQUENCE_ERROR)"

text \<open>
  A three-phase handle with the given angles, verdict and validity flag, the tolerance
  at its default of 10 degrees.
\<close>

definition example_threephase :: "real \<Rightarrow> real \<Rightarrow> real \<Rightarrow> pc814_sequence_t \<Rightarrow> bool \<Rightarrow> pc814_threephase_t" where
  "example_threephase ab bc ca verdict v =
     \<lparr>phase_a = Some init_handle, phase_b = Some init_handle, phase_c = Some init_handle,
      sequence = verdict,
      relationship = zero_relationship
        \<lparr>phase_ab_angle := ab, phase_bc_angle := bc, phase_ca_angle := ca, valid := v\<rparr>,
      last_update_time = 0, sequence_tolerance = 10, initialized = True\<rparr>"

text \<open>
  The percentage of the validity test as the specification writes it,
  \<open>|frequency_hz - expected_hz| / expected_hz * 100\<close>, in exact arithmetic on the unsigned
  values.
\<close>

definition exact_percent :: "u32 \<Rightarrow> u32 \<Rightarrow> real" where
  "exact_percent freq expected =
     \<bar>real (unat freq) - real (unat expected)\<bar> / real (unat expected) * 100"



text \<open>
  An initialized handle with the given tolerance that has seen one edge at counter value
  1, and the hardware's reading \<open>ticks\<close> ticks later.
\<close>

definition second_edge_handle :: "real \<Rightarrow> pc814_handle_t" where
  "second_edge_handle tolerance =
     init_handle\<lparr>frequency_tolerance := tolerance, last_capture_value := 1\<rparr>"


text \<open>
  The imbalance as the specification writes it,
  \<open>mean(|ab - 120|, |bc - 120|, |ca - 120|) / 120 * 100\<close>, with the code's floating-point
  operations.
\<close>

definition mean3 :: "(real \<Rightarrow> real) \<Rightarrow> real \<Rightarrow> real \<Rightarrow> real \<Rightarrow> real" where
  "mean3 rnd a b c = rnd (rnd (rnd (a + b) + c) / 3)"

definition imbalance_percent :: "(real \<Rightarrow> real) \<Rightarrow> real \<Rightarrow> real \<Rightarrow> real \<Rightarrow> real" where
  "imbalance_percent rnd ab bc ca =
     rnd (rnd (mean3 rnd \<bar>rnd (ab - 120)\<bar> \<bar>rnd (bc - 120)\<bar> \<bar>rnd (ca - 120)\<bar> / 120) * 100)"

text \<open>
  The calls of PC814.c that write to the handle, and a sequence of them on one handle.
  A run has no result once a capture call has divided by zero.
\<close>

datatype api_call =
    Init "pc814_port_t option" pc814_pull_t pc814_edge_t
  | Process_Capture hw_reading
  | Set_Expected_Frequency u32
  | Set_Frequency_Tolerance real
  | Reset
  | Set_Callback bool
  | Reset_Statistics

fun api_step :: "(real \<Rightarrow> real) \<Rightarrow> pc814_handle_t option \<Rightarrow> api_call \<Rightarrow> pc814_handle_t option option" where
  "api_step rnd handle (Init p pull edge) = Some (fst (snd (pc814_init handle p pull edge)))"
| "api_step rnd handle (Process_Capture hw) =
     (case pc814_process_capture rnd handle hw of
        Returned st handle' n \<Rightarrow> Some handle'
      | Division_By_Zero \<Rightarrow> None)"
| "api_step rnd handle (Set_Expected_Frequency freq) = Some (pc814_set_expected_frequency handle freq)"
| "api_step rnd handle (Set_Frequency_Tolerance tolerance) =
     Some (pc814_set_frequency_tolerance handle tolerance)"
| "api_step rnd handle Reset = Some (pc814_reset handle)"
| "api_step rnd handle (Set_Callback cb) = Some (pc814_set_callback handle cb)"
| "api_step rnd handle Reset_Statistics = Some (pc814_reset_statistics handle)"

fun api_run :: "(real \<Rightarrow> real) \<Rightarrow> pc814_handle_t option \<Rightarrow> api_call list \<Rightarrow> pc814_handle_t option option" where
  "api_run rnd handle [] = Some handle"
| "api_run rnd handle (c # cs) =
     (case api_step rnd handle c of None \<Rightarrow> None | Some handle' \<Rightarrow> api_run rnd handle' cs)"

text \<open>The configuration invariant of an initialized handle.\<close>

definition config_invariant :: "pc814_handle_t option \<Rightarrow> bool" where
  "config_invariant handle =
     (case handle of
        None \<Rightarrow> False
      | Some h \<Rightarrow>
          pc814_handle_t.initialized h \<and>
          (expected_frequency h = 50 \<or> expected_frequency h = 60) \<and>
          0 < frequency_tolerance h \<and> frequency_tolerance h \<le> 50)"

text \<open>
  Mains at 50 Hz seen through a 1 kHz timer: edge \<open>k\<close> is captured at counter value
  \<open>1 + 20 * k\<close>, 20 ticks (20000 microseconds) after the one before.
  \<open>mains_edges n\<close> are the first \<open>n\<close> edges.
\<close>

definition edge_reading :: "nat \<Rightarrow> hw_reading" where
  "edge_reading k =
     \<lparr>capture_value = of_nat (1 + 20 * k), timer_frequency = 1000, time_us = of_nat (20000 * k)\<rparr>"

definition mains_edges :: "nat \<Rightarrow> hw_reading list" where
  "mains_edges n = map edge_reading [0..<n]"

text \<open>The counters and the period statistics of a handle: total, valid, invalid, min, avg, max.\<close>

definition period_statistics :: "pc814_handle_t \<Rightarrow> u32 \<times> u32 \<times> u32 \<times> u32 \<times> u32 \<times> u32" where
  "period_statistics h =
     (let st = statistics h
      in (total_zc_count st, valid_zc_count st, invalid_zc_count st,
          min_period_us st, avg_period_us st, max_period_us st))"

text \<open>The handle after edge \<open>j\<close> of the mains edges, \<open>j\<close> valid samples on.\<close>

definition steady :: "nat \<Rightarrow> pc814_handle_t \<Rightarrow> bool" where
  "steady j h \<longleftrightarrow>
     pc814_handle_t.initialized h \<and> port h = Some example_port \<and>
     expected_frequency h = 50 \<and> frequency_tolerance h = 5 \<and>
     last_capture_value h = of_nat (1 + 20 * j) \<and>
     period_sum h = of_nat (20000 * j) \<and> period_count h = of_nat j \<and>
     period_statistics h =
       (of_nat j, of_nat j, 0, (if j = 0 then 0 else 20000),
        (if j = 0 then 0 else of_nat (20000 * j) div of_nat j), (if j = 0 then 0 else 20000))"

text \<open>
  The statistics invariants. \<open>counts_agree\<close>: the valid and the invalid count add up to
  the total. \<open>valid_periods\<close>: the periods, in microseconds, of the valid samples that a
  sequence of capture calls forms. \<open>stats_match ps\<close>: the accumulator, the count and the
  minimum, maximum and average are those of the periods \<open>ps\<close>.
\<close>

definition counts_agree :: "pc814_handle_t \<Rightarrow> bool" where
  "counts_agree h \<longleftrightarrow>
     valid_zc_count (statistics h) + invalid_zc_count (statistics h)
       = total_zc_count (statistics h)"

fun valid_periods :: "(real \<Rightarrow> real) \<Rightarrow> pc814_handle_t \<Rightarrow> hw_reading list \<Rightarrow> nat list" where
  "valid_periods rnd h [] = []"
| "valid_periods rnd h (r # rs) =
     (case pc814_process_capture rnd (Some h) r of
        Returned st (Some h') n \<Rightarrow>
          (if st = PC814_OK \<and> last_capture_value h \<noteq> 0 \<and> pc814_data_t.valid (data h')
           then [unat (period_us (data h'))] else [])
          @ valid_periods rnd h' rs
      | _ \<Rightarrow> [])"

definition stats_match :: "nat list \<Rightarrow> pc814_handle_t \<Rightarrow> bool" where
  "stats_match ps h \<longleftrightarrow>
     unat (period_sum h) = sum_list ps \<and> unat (period_count h) = length ps \<and>
     (\<forall>p \<in> set ps. 0 < p) \<and>
     (if ps = []
      then min_period_us (statistics h) = 0 \<and> max_period_us (statistics h) = 0
      else unat (min_period_us (statistics h)) = Min (set ps) \<and>
           unat (max_period_us (statistics h)) = Max (set ps) \<and>
           unat (avg_period_us (statistics h)) = sum_list ps div length ps)"

section \<open>Properties\<close>

lemma phase_time_diff_modular: "phase_time_diff time1 time2 = time2 - time1"
  by (simp add: phase_time_diff_def)

lemma capture_period_ticks_forward:
  "current_capture > last_capture \<Longrightarrow>
     capture_period_ticks last_capture current_capture = current_capture - last_capture"
  by (simp add: capture_period_ticks_def)

lemma capture_period_ticks_wrapped:
  "\<not> current_capture > last_capture \<Longrightarrow>
     capture_period_ticks last_capture current_capture = current_capture - last_capture - 1"
  by (simp add: capture_period_ticks_def)

text \<open>
  C2. The claim: when the current counter value is below the previous one the tick
  delta is the modular difference over 32 bits; with previous \<open>0xFFFFFFF0\<close> and current
  \<open>0x00000010\<close> that is \<open>0x20\<close>. The code's overflow branch leaves out the \<open>+ 1\<close> that
  \<open>calculate_phase_angle\<close> has: it yields one less than the modular difference
  (\<open>capture_period_ticks_wrapped\<close>), here \<open>0x1F\<close>.
\<close>

theorem capture_period_ticks_wrap_off_by_one:
  "capture_period_ticks 0xFFFFFFF0 0x00000010 = 0x1F \<and>
   capture_period_ticks 0xFFFFFFF0 0x00000010 \<noteq> 0x00000010 - 0xFFFFFFF0 \<and>
   (0x00000010 - 0xFFFFFFF0 :: u32) = 0x20"
  by (simp add: capture_period_ticks_def)

lemma ticks_agree_iff:
  "capture_period_ticks t1 t2 = phase_time_diff t1 t2 \<longleftrightarrow> t1 < t2"
  by (auto simp add: phase_time_diff_modular capture_period_ticks_def)

text \<open>
  C5. The claim: the timestamp difference of \<open>calculate_phase_angle\<close> equals the tick
  delta of \<open>pc814_process_capture\<close> at every pair of 32-bit values. The two agree exactly
  when the second value is the larger (\<open>ticks_agree_iff\<close>). At previous \<open>0xFFFFFFF0\<close> and
  current \<open>0x10\<close> the angle calculator has the modular difference \<open>0x20\<close> and the capture
  processor \<open>0x1F\<close>; at two equal values they have \<open>0\<close> and \<open>0xFFFFFFFF\<close>.
\<close>

theorem time_diff_differs_from_period_ticks:
  "phase_time_diff 0xFFFFFFF0 0x00000010 = 0x20 \<and>
   capture_period_ticks 0xFFFFFFF0 0x00000010 = 0x1F \<and>
   phase_time_diff 5 5 = 0 \<and>
   capture_period_ticks 5 5 = 0xFFFFFFFF"
  by (simp add: phase_time_diff_def capture_period_ticks_def)

subsection \<open>The capture call\<close>

lemma init_handle_is_init:
  "pc814_init (Some h) (Some example_port) PC814_PULL_UP PC814_EDGE_RISING
     = (PC814_OK, Some init_handle, Some PC814_PULL_UP)"
  by (simp add: pc814_init_def init_handle_def zero_handle_def example_port_def)

lemma float_rounding_exact: "float_rounding exact"
  by (simp add: float_rounding_def exact_def mono_def)

lemma zero_period_undefined:
  assumes "pc814_handle_t.initialized h" and "port h = Some p"
    and "timer_get_capture_value p" and "timer_get_frequency p"
    and "capture_value hw \<noteq> 0" and "timer_frequency hw \<noteq> 0"
    and "last_capture_value h \<noteq> 0"
    and "(capture_period_ticks (last_capture_value h) (capture_value hw) * 1000000)
           div timer_frequency hw = 0"
  shows "pc814_process_capture rnd (Some h) hw = Division_By_Zero"
  using assms by (simp add: pc814_process_capture_def Let_def)

text \<open>
  C1. The claim: when the derived \<open>period_us\<close> is zero the call fails with a
  degenerate-interval condition and does not divide. The code has no such check
  (\<open>zero_period_undefined\<close>): with a 2 MHz timer and two edges one tick apart, the first
  call records the counter and the second computes \<open>period_us = 1 * 1000000 / 2000000 = 0\<close>
  and then executes \<open>1000000UL / period_us\<close>.
\<close>

theorem process_capture_zero_period:
  "pc814_process_capture rnd (Some init_handle)
      \<lparr>capture_value = 1, timer_frequency = 2000000, time_us = 0\<rparr>
     = Returned PC814_OK (Some (init_handle\<lparr>last_capture_value := 1\<rparr>)) None \<and>
   pc814_process_capture rnd (Some (init_handle\<lparr>last_capture_value := 1\<rparr>))
      \<lparr>capture_value = 2, timer_frequency = 2000000, time_us = 0\<rparr>
     = Division_By_Zero"
  by (simp add: pc814_process_capture_def init_handle_def example_port_def
      capture_period_ticks_def)

theorem process_capture_zero_period_witness:
  "pc814_process_capture exact (Some (init_handle\<lparr>last_capture_value := 1\<rparr>))
      \<lparr>capture_value = 2, timer_frequency = 2000000, time_us = 0\<rparr>
     = Division_By_Zero"
  using process_capture_zero_period [of exact] by simp

text \<open>
  C9. On an initialized channel, a call that reads a zero capture value or a zero counter
  frequency returns \<open>PC814_ERROR\<close>, leaves the handle as it was and calls no listener.
\<close>

theorem process_capture_rejects_zero_reading:
  assumes "pc814_handle_t.initialized h" and "port h \<noteq> None"
    and "capture_value hw = 0 \<or> timer_frequency hw = 0"
  shows "pc814_process_capture rnd (Some h) hw = Returned PC814_ERROR (Some h) None"
  using assms by (auto simp add: pc814_process_capture_def Let_def split: option.splits)

theorem process_capture_rejects_zero_reading_witness:
  "pc814_handle_t.initialized (init_handle\<lparr>last_capture_value := 7\<rparr>) \<and>
   port (init_handle\<lparr>last_capture_value := 7\<rparr>) \<noteq> None \<and>
   pc814_process_capture exact (Some (init_handle\<lparr>last_capture_value := 7\<rparr>))
      \<lparr>capture_value = 0, timer_frequency = 1000000, time_us = 3\<rparr>
     = Returned PC814_ERROR (Some (init_handle\<lparr>last_capture_value := 7\<rparr>)) None \<and>
   pc814_process_capture exact (Some (init_handle\<lparr>last_capture_value := 7\<rparr>))
      \<lparr>capture_value = 9, timer_frequency = 0, time_us = 3\<rparr>
     = Returned PC814_ERROR (Some (init_handle\<lparr>last_capture_value := 7\<rparr>)) None"
  using process_capture_rejects_zero_reading
      [of "init_handle\<lparr>last_capture_value := 7\<rparr>"
          "\<lparr>capture_value = 0, timer_frequency = 1000000, time_us = 3\<rparr>" exact]
    process_capture_rejects_zero_reading
      [of "init_handle\<lparr>last_capture_value := 7\<rparr>"
          "\<lparr>capture_value = 9, timer_frequency = 0, time_us = 3\<rparr>" exact]
  by (simp add: init_handle_def)

subsection \<open>The fields a sample writes\<close>

lemma process_capture_sample:
  assumes "pc814_handle_t.initialized h" and "port h = Some p"
    and "timer_get_capture_value p" and "timer_get_frequency p"
    and "capture_value hw \<noteq> 0" and "timer_frequency hw \<noteq> 0"
    and "last_capture_value h \<noteq> 0"
    and "(capture_period_ticks (last_capture_value h) (capture_value hw) * 1000000)
           div timer_frequency hw = p_us"
    and "p_us \<noteq> 0"
  shows "pc814_process_capture rnd (Some h) hw =
     (let current_time = (if get_time_us p then time_us hw else 0);
          freq_hz = 1000000 div p_us;
          freq_valid = validate_frequency rnd freq_hz
             (expected_frequency h) (frequency_tolerance h);
          h1 = update_data h p_us freq_hz current_time freq_valid;
          h2 = (if freq_valid then record_valid_sample rnd h1 p_us freq_hz
                else record_invalid_sample h1)
      in Returned PC814_OK
           (Some (h2\<lparr>last_capture_value := capture_value hw,
                      last_capture_time := current_time\<rparr>))
           (if callback h2 \<and> freq_valid then Some (data h2) else None))"
  using assms by (simp add: pc814_process_capture_def Let_def)

lemma update_data_fields:
  "statistics (update_data h p f t v) = statistics h"
  "period_sum (update_data h p f t v) = period_sum h"
  "period_count (update_data h p f t v) = period_count h"
  "port (update_data h p f t v) = port h"
  "last_capture_value (update_data h p f t v) = last_capture_value h"
  "pc814_handle_t.initialized (update_data h p f t v) = pc814_handle_t.initialized h"
  "expected_frequency (update_data h p f t v) = expected_frequency h"
  "frequency_tolerance (update_data h p f t v) = frequency_tolerance h"
  by (simp_all add: update_data_def)

lemma record_valid_sample_fields:
  "period_sum (record_valid_sample rnd h p f) = period_sum h + p"
  "period_count (record_valid_sample rnd h p f) = period_count h + 1"
  "port (record_valid_sample rnd h p f) = port h"
  "pc814_handle_t.initialized (record_valid_sample rnd h p f) = pc814_handle_t.initialized h"
  "expected_frequency (record_valid_sample rnd h p f) = expected_frequency h"
  "frequency_tolerance (record_valid_sample rnd h p f) = frequency_tolerance h"
  "total_zc_count (statistics (record_valid_sample rnd h p f)) = total_zc_count (statistics h) + 1"
  "valid_zc_count (statistics (record_valid_sample rnd h p f)) = valid_zc_count (statistics h) + 1"
  "invalid_zc_count (statistics (record_valid_sample rnd h p f)) = invalid_zc_count (statistics h)"
  "min_period_us (statistics (record_valid_sample rnd h p f)) =
     (if min_period_us (statistics h) = 0 \<or> p < min_period_us (statistics h)
      then p else min_period_us (statistics h))"
  "max_period_us (statistics (record_valid_sample rnd h p f)) =
     (if p > max_period_us (statistics h) then p else max_period_us (statistics h))"
  "avg_period_us (statistics (record_valid_sample rnd h p f)) =
     (if period_count h + 1 > 0 then (period_sum h + p) div (period_count h + 1)
      else avg_period_us (statistics h))"
  by (simp_all add: record_valid_sample_def Let_def)

lemma record_invalid_sample_fields:
  "period_sum (record_invalid_sample h) = period_sum h"
  "period_count (record_invalid_sample h) = period_count h"
  "port (record_invalid_sample h) = port h"
  "pc814_handle_t.initialized (record_invalid_sample h) = pc814_handle_t.initialized h"
  "expected_frequency (record_invalid_sample h) = expected_frequency h"
  "frequency_tolerance (record_invalid_sample h) = frequency_tolerance h"
  "total_zc_count (statistics (record_invalid_sample h)) = total_zc_count (statistics h) + 1"
  "valid_zc_count (statistics (record_invalid_sample h)) = valid_zc_count (statistics h)"
  "invalid_zc_count (statistics (record_invalid_sample h)) = invalid_zc_count (statistics h) + 1"
  "min_period_us (statistics (record_invalid_sample h)) = min_period_us (statistics h)"
  "max_period_us (statistics (record_invalid_sample h)) = max_period_us (statistics h)"
  "avg_period_us (statistics (record_invalid_sample h)) = avg_period_us (statistics h)"
  by (simp_all add: record_invalid_sample_def)

lemma sample_data_fields:
  "data (record_valid_sample rnd h p f) = data h"
  "data (record_invalid_sample h) = data h"
  "period_us (data (update_data h p f t v)) = p"
  "frequency_hz (data (update_data h p f t v)) = f"
  "pc814_data_t.valid (data (update_data h p f t v)) = v"
  by (simp_all add: record_valid_sample_def record_invalid_sample_def update_data_def Let_def)

text \<open>
  The product \<open>period_ticks * 1000000\<close> wraps at \<open>2 ^ 32\<close>. Where it does not, the
  conversion is the quotient of the natural numbers, whatever the width of
  \<open>unsigned long\<close>.
\<close>

lemma ticks_to_us_no_wrap:
  assumes "unat ticks * 1000000 < 2 ^ 32"
  shows "unat ((ticks * 1000000) div f :: u32) = (unat ticks * 1000000) div unat f"
proof -
  have "unat (ticks * 1000000 :: u32) = (unat ticks * unat (1000000 :: u32)) mod 2 ^ 32"
    by (simp add: unat_word_ariths)
  also have "\<dots> = unat ticks * 1000000" using assms by simp
  finally show ?thesis by (simp add: unat_div)
qed

subsection \<open>Sequence classifier\<close>

lemma rnd_180: "float_rounding rnd \<Longrightarrow> rnd 180 = 180"
proof -
  assume "float_rounding rnd"
  then have "\<forall>n::int. \<bar>n\<bar> \<le> 2 ^ 24 \<longrightarrow> rnd (real_of_int n) = real_of_int n"
    by (simp add: float_rounding_def)
  then have "rnd (real_of_int 180) = real_of_int 180"
    by (rule allE[where x=180]) simp
  then show ?thesis by simp
qed

text \<open>
  The code folds the distance to 240 with a test against 180; the specification takes
  a minimum. The two agree for a rounding that is monotone and exact at 180.
\<close>

lemma wrapped_distance_240_code:
  assumes "float_rounding rnd"
  shows "(if \<bar>rnd (angle - 240)\<bar> > 180 then rnd (360 - \<bar>rnd (angle - 240)\<bar>)
          else \<bar>rnd (angle - 240)\<bar>)
         = wrapped_distance_240 rnd angle"
proof -
  let ?d = "\<bar>rnd (angle - 240)\<bar>"
  have m: "mono rnd" using assms by (simp add: float_rounding_def)
  have r: "rnd 180 = 180" using assms by (rule rnd_180)
  show ?thesis
  proof (cases "?d > 180")
    case True
    then have "360 - ?d \<le> 180" by simp
    with m have "rnd (360 - ?d) \<le> rnd 180" by (rule monoD)
    then have "rnd (360 - ?d) \<le> ?d" using r True by simp
    then show ?thesis using True by (simp add: wrapped_distance_240_def min_def)
  next
    case False
    then have "180 \<le> 360 - ?d" by simp
    with m have "rnd 180 \<le> rnd (360 - ?d)" by (rule monoD)
    then have "?d \<le> rnd (360 - ?d)" using r False by simp
    then show ?thesis using False by (simp add: wrapped_distance_240_def min_def)
  qed
qed

lemma is_angle_120_near:
  "float_rounding rnd \<Longrightarrow> is_angle_120 rnd angle tolerance = near_120 rnd angle tolerance"
  using wrapped_distance_240_code [of rnd angle]
  by (simp add: is_angle_120_def near_120_def Let_def)

lemma is_angle_240_near:
  "float_rounding rnd \<Longrightarrow> is_angle_240 rnd angle tolerance = near_240 rnd angle tolerance"
  using wrapped_distance_240_code [of rnd angle]
  by (simp add: is_angle_240_def near_240_def Let_def)

lemma detect_sequence_code:
  "valid (relationship t) \<Longrightarrow>
   pc814_threephase_detect_sequence rnd (Some t) =
     (let ab = phase_ab_angle (relationship t); bc = phase_bc_angle (relationship t);
          ca = phase_ca_angle (relationship t); tol = sequence_tolerance t in
      if is_angle_120 rnd ab tol \<and> is_angle_120 rnd bc tol \<and> is_angle_120 rnd ca tol
      then PC814_SEQUENCE_ABC
      else if (is_angle_240 rnd ab tol \<or> is_angle_240 rnd bc tol) \<and> is_angle_120 rnd ca tol
      then PC814_SEQUENCE_ACB
      else if is_angle_240 rnd ab tol \<and> is_angle_240 rnd bc tol
      then PC814_SEQUENCE_ACB
      else PC814_SEQUENCE_ERROR)"
  by (simp add: pc814_threephase_detect_sequence_def Let_def)

lemma detect_sequence_invalid:
  "\<not> valid (relationship t) \<Longrightarrow>
   pc814_threephase_detect_sequence rnd (Some t) = PC814_SEQUENCE_ERROR"
  by (simp add: pc814_threephase_detect_sequence_def)

text \<open>
  \<open>pc814_threephase_process\<close> calls the classifier before it sets the flag: a pass that
  starts from a relationship that is not valid stores the verdict Error.
\<close>

lemma threephase_first_pass:
  assumes "initialized t" and "\<not> valid (relationship t)"
    and "pc814_threephase_process rnd (Some t) = (PC814_OK, Some t')"
  shows "sequence t' = PC814_SEQUENCE_ERROR \<and> valid (relationship t')"
  using assms
  by (auto simp add: pc814_threephase_process_def Let_def pc814_threephase_detect_sequence_def
      split: prod.splits pc814_status_t.splits option.splits if_splits)

lemma near_120_exact_120: "near_120 exact 120 10"
  by (simp add: near_120_def exact_def)

text \<open>
  C3. The claim: at every triple of angles and tolerance the classifier follows the
  first-match order. The function first tests the relationship's validity flag and
  returns Error when it is not set, whatever the angles: with all three angles at 120
  and tolerance 10 the decision order gives Correct and the function gives Error.
\<close>

theorem detect_sequence_counterexample:
  "pc814_threephase_detect_sequence exact
      (Some (example_threephase 120 120 120 PC814_SEQUENCE_UNKNOWN False))
     = PC814_SEQUENCE_ERROR \<and>
   classify exact 120 120 120 10 = PC814_SEQUENCE_ABC"
  by (simp add: pc814_threephase_detect_sequence_def example_threephase_def classify_def
      near_120_exact_120)

text \<open>
  C3, as amended. For every phase relationship whose validity flag is set, the
  classifier follows the first-match order of the specification, with \<open>near_120\<close> and
  \<open>near_240\<close> as the specification defines them; when the flag is not set it returns
  Error whatever the angles.
\<close>

theorem detect_sequence_valid:
  "(valid (relationship t) \<and> float_rounding rnd \<longrightarrow>
      pc814_threephase_detect_sequence rnd (Some t) =
        classify rnd (phase_ab_angle (relationship t)) (phase_bc_angle (relationship t))
          (phase_ca_angle (relationship t)) (sequence_tolerance t)) \<and>
   (\<not> valid (relationship t) \<longrightarrow>
      pc814_threephase_detect_sequence rnd (Some t) = PC814_SEQUENCE_ERROR)"
  using detect_sequence_invalid [of t rnd]
  by (simp add: detect_sequence_code classify_def is_angle_120_near is_angle_240_near Let_def)

theorem detect_sequence_valid_witness:
  "valid (relationship (example_threephase 240 60 120 PC814_SEQUENCE_UNKNOWN True)) \<and>
   float_rounding exact \<and>
   pc814_threephase_detect_sequence exact
      (Some (example_threephase 240 60 120 PC814_SEQUENCE_UNKNOWN True))
     = PC814_SEQUENCE_ACB \<and>
   \<not> valid (relationship (example_threephase 240 60 120 PC814_SEQUENCE_UNKNOWN False)) \<and>
   pc814_threephase_detect_sequence exact
      (Some (example_threephase 240 60 120 PC814_SEQUENCE_UNKNOWN False))
     = PC814_SEQUENCE_ERROR"
  using detect_sequence_valid [of "example_threephase 240 60 120 PC814_SEQUENCE_UNKNOWN True" exact]
    detect_sequence_valid [of "example_threephase 240 60 120 PC814_SEQUENCE_UNKNOWN False" exact]
  by (simp add: example_threephase_def float_rounding_exact classify_def near_120_def
      near_240_def wrapped_distance_240_def exact_def)

subsection \<open>Correction advisor\<close>

lemma is_angle_120_exact_120: "is_angle_120 exact 120 10"
  by (simp add: is_angle_120_def exact_def)

lemma is_angle_120_exact_60: "\<not> is_angle_120 exact 60 10"
  by (simp add: is_angle_120_def exact_def)

text \<open>
  C4. For every valid phase relationship: when the stored verdict is Reversed the
  recommendation is \<open>swap_bc\<close> alone; when it is Error the recommendation is \<open>swap_bc\<close>
  if ab and ca are near 120, else \<open>swap_ab\<close> if bc and ca are, else \<open>swap_ca\<close> if ab and bc
  are, else none. The predicate is \<open>is_angle_120\<close>, the one the classifier uses.
\<close>

theorem swap_recommendation_spec:
  assumes "valid (relationship t)"
  shows "(sequence t = PC814_SEQUENCE_ACB \<longrightarrow>
            pc814_threephase_get_swap_recommendation rnd (Some t) (Some a) (Some b) (Some c)
              = (PC814_OK, Some False, Some True, Some False)) \<and>
         (sequence t = PC814_SEQUENCE_ERROR \<longrightarrow>
            pc814_threephase_get_swap_recommendation rnd (Some t) (Some a) (Some b) (Some c)
              = (let tol = sequence_tolerance t;
                     ab_120 = is_angle_120 rnd (phase_ab_angle (relationship t)) tol;
                     bc_120 = is_angle_120 rnd (phase_bc_angle (relationship t)) tol;
                     ca_120 = is_angle_120 rnd (phase_ca_angle (relationship t)) tol
                 in if ab_120 \<and> ca_120 then (PC814_OK, Some False, Some True, Some False)
                    else if bc_120 \<and> ca_120 then (PC814_OK, Some True, Some False, Some False)
                    else if ab_120 \<and> bc_120 then (PC814_OK, Some False, Some False, Some True)
                    else (PC814_OK, Some False, Some False, Some False)))"
  using assms by (simp add: pc814_threephase_get_swap_recommendation_def Let_def)

theorem swap_recommendation_spec_witness:
  "valid (relationship (example_threephase 240 60 120 PC814_SEQUENCE_ACB True)) \<and>
   valid (relationship (example_threephase 60 120 120 PC814_SEQUENCE_ERROR True)) \<and>
   pc814_threephase_get_swap_recommendation exact
      (Some (example_threephase 240 60 120 PC814_SEQUENCE_ACB True))
      (Some True) (Some False) (Some True)
     = (PC814_OK, Some False, Some True, Some False) \<and>
   pc814_threephase_get_swap_recommendation exact
      (Some (example_threephase 60 120 120 PC814_SEQUENCE_ERROR True))
      (Some True) (Some True) (Some True)
     = (PC814_OK, Some True, Some False, Some False)"
  using swap_recommendation_spec
      [of "example_threephase 240 60 120 PC814_SEQUENCE_ACB True" exact True False True]
    swap_recommendation_spec
      [of "example_threephase 60 120 120 PC814_SEQUENCE_ERROR True" exact True True True]
  by (simp add: example_threephase_def is_angle_120_exact_120 is_angle_120_exact_60)

subsection \<open>Signed 32-bit differences\<close>

lemma uint_small:
  assumes "unat (w::u32) < 2 ^ 31" shows "uint w < 2 ^ 31"
proof -
  have "unat w < 2147483648" using assms by simp
  then have "uint w < 2147483648" using uint_nat [of w] by linarith
  then show ?thesis by simp
qed

lemma sint_small: 
  assumes "unat (w::u32) < 2 ^ 31" shows "sint w = uint w"
proof -
  have u: "uint w < 2 ^ 31" using assms by (rule uint_small)
  have "sint w = signed_take_bit 31 (uint w)" by (simp add: sint_uint)
  also have "\<dots> = uint w"
    using u uint_ge_0 [of w] by (intro signed_take_bit_int_eq_self) linarith+
  finally show ?thesis .
qed

lemma sint_diff_small:
  assumes "unat (a::u32) < 2 ^ 31" "unat (b::u32) < 2 ^ 31"
  shows "sint (a - b) = uint a - uint b"
proof -
  have ua: "uint a < 2 ^ 31" "0 \<le> uint a" using uint_small [OF assms(1)] by simp_all
  have ub: "uint b < 2 ^ 31" "0 \<le> uint b" using uint_small [OF assms(2)] by simp_all
  have "sint (a - b) = signed_take_bit 31 (sint a - sint b)"
    by (simp add: sint_word_ariths)
  also have "\<dots> = signed_take_bit 31 (uint a - uint b)"
    using assms by (simp add: sint_small)
  also have "\<dots> = uint a - uint b"
    using ua ub by (intro signed_take_bit_int_eq_self) linarith+
  finally show ?thesis .
qed

lemma sint_neg_diff_small:
  assumes "unat (a::u32) < 2 ^ 31" "unat (b::u32) < 2 ^ 31"
  shows "sint (- (a - b)) = uint b - uint a"
  using sint_diff_small [OF assms(2) assms(1)] by simp

lemma abs_int32_diff:
  assumes "unat (a::u32) < 2 ^ 31" "unat (b::u32) < 2 ^ 31"
  shows "(if sint (a - b) < 0 then sint (- (a - b)) else sint (a - b)) = \<bar>uint a - uint b\<bar>"
  using assms by (simp add: sint_diff_small sint_neg_diff_small)

subsection \<open>Rounding\<close>

lemma rnd_int:
  assumes "float_rounding rnd" and "\<bar>n\<bar> \<le> 2 ^ 24"
  shows "rnd (real_of_int n) = real_of_int n"
  using assms by (simp add: float_rounding_def)

lemma rnd_0: "float_rounding rnd \<Longrightarrow> rnd 0 = 0"
  using rnd_int [of rnd 0] by simp

lemma rnd_nonneg:
  assumes "float_rounding rnd" and "0 \<le> x" shows "0 \<le> rnd x"
proof -
  have "mono rnd" using assms(1) by (simp add: float_rounding_def)
  then have "rnd 0 \<le> rnd x" using assms(2) by (rule monoD)
  then show ?thesis using rnd_0 [OF assms(1)] by simp
qed

lemma rnd_between:
  assumes fr: "float_rounding rnd"
    and lo: "1 / 2 ^ 126 \<le> lo" "lo \<le> x" and hi: "x \<le> hi" "hi \<le> 2 ^ 127"
  shows "lo * (999999 / 1000000) \<le> rnd x \<and> rnd x \<le> hi * (1000001 / 1000000)"
proof -
  have pos: "0 < x" using lo by (smt (verit) divide_pos_pos zero_less_numeral zero_less_power zero_less_one)
  have rng: "1 / 2 ^ 126 \<le> \<bar>x\<bar> \<and> \<bar>x\<bar> \<le> 2 ^ 127" using lo hi pos by simp
  have "\<forall>x. 1 / 2 ^ 126 \<le> \<bar>x\<bar> \<and> \<bar>x\<bar> \<le> 2 ^ 127 \<longrightarrow> \<bar>rnd x - x\<bar> \<le> \<bar>x\<bar> / 2 ^ 24"
    using fr by (simp add: float_rounding_def)
  then have "\<bar>rnd x - x\<bar> \<le> \<bar>x\<bar> / 2 ^ 24" using rng by blast
  then have e: "\<bar>rnd x - x\<bar> \<le> x / 16777216" using pos by simp
  have "x / 16777216 \<le> x / 1000000" using pos by simp
  with e have "\<bar>rnd x - x\<bar> \<le> x / 1000000" by linarith
  then have "x * (999999 / 1000000) \<le> rnd x" "rnd x \<le> x * (1000001 / 1000000)" by linarith+
  moreover have "lo * (999999 / 1000000) \<le> x * (999999 / 1000000)" using lo by simp
  moreover have "x * (1000001 / 1000000) \<le> hi * (1000001 / 1000000)" using hi by simp
  ultimately show ?thesis by linarith
qed

lemma pow2_powi: "pow2 e = 2 powi e"
  by (simp add: pow2_def power_int_def power_divide)


lemma pow2_strict: "e < e' \<Longrightarrow> pow2 e < pow2 e'"
  by (simp add: pow2_powi power_int_strict_increasing)






















subsection \<open>Frequency validation\<close>






text \<open>In exact arithmetic the test is the specification's formula.\<close>

lemma validate_frequency_exact:
  assumes "unat f < 2 ^ 31" and "unat e < 2 ^ 31"
  shows "validate_frequency exact f e tol \<longleftrightarrow> f \<noteq> 0 \<and> e \<noteq> 0 \<and> exact_percent f e \<le> tol"
  using abs_int32_diff [OF assms]
  by (simp add: validate_frequency_def exact_percent_def exact_def Let_def)











text \<open>
  The handle of the examples below is the one the interface reaches from
  initialization by setting the tolerance and capturing a first edge at counter value 1.
\<close>

lemma second_edge_handle_reached:
  assumes "0 < tol" "tol \<le> 50" "timer_freq \<noteq> 0"
  shows "api_run rnd (Some init_handle)
     [Set_Frequency_Tolerance tol,
      Process_Capture \<lparr>capture_value = 1, timer_frequency = timer_freq, time_us = 0\<rparr>]
   = Some (Some (second_edge_handle tol))"
  using assms
  by (simp add: pc814_set_frequency_tolerance_def pc814_process_capture_def init_handle_def
      example_port_def second_edge_handle_def Let_def)






subsection \<open>Imbalance\<close>

lemma get_imbalance_valid:
  "valid (relationship t) \<Longrightarrow>
   pc814_threephase_get_imbalance rnd (Some t) =
     imbalance_percent rnd (phase_ab_angle (relationship t)) (phase_bc_angle (relationship t))
       (phase_ca_angle (relationship t))"
  by (simp add: pc814_threephase_get_imbalance_def imbalance_percent_def mean3_def Let_def)

lemma get_imbalance_invalid:
  "\<not> valid (relationship t) \<Longrightarrow> pc814_threephase_get_imbalance rnd (Some t) = - 1"
  by (simp add: pc814_threephase_get_imbalance_def)

lemma get_imbalance_null: "pc814_threephase_get_imbalance rnd None = - 1"
  by (simp add: pc814_threephase_get_imbalance_def)

lemma imbalance_percent_nonneg:
  assumes fr: "float_rounding rnd"
  shows "0 \<le> imbalance_percent rnd ab bc ca"
proof -
  note nn = rnd_nonneg [OF fr]
  have "0 \<le> rnd (\<bar>rnd (ab - 120)\<bar> + \<bar>rnd (bc - 120)\<bar>)" by (rule nn) simp
  then have "0 \<le> rnd (rnd (\<bar>rnd (ab - 120)\<bar> + \<bar>rnd (bc - 120)\<bar>) + \<bar>rnd (ca - 120)\<bar>)"
    by (intro nn) simp
  then have "0 \<le> mean3 rnd \<bar>rnd (ab - 120)\<bar> \<bar>rnd (bc - 120)\<bar> \<bar>rnd (ca - 120)\<bar>"
    unfolding mean3_def by (intro nn) simp
  then have "0 \<le> rnd (mean3 rnd \<bar>rnd (ab - 120)\<bar> \<bar>rnd (bc - 120)\<bar> \<bar>rnd (ca - 120)\<bar> / 120)"
    by (intro nn) simp
  then show ?thesis unfolding imbalance_percent_def by (intro nn) simp
qed

lemma imbalance_percent_exact:
  "imbalance_percent exact ab bc ca = (\<bar>ab - 120\<bar> + \<bar>bc - 120\<bar> + \<bar>ca - 120\<bar>) / 3 / 120 * 100"
  by (simp add: imbalance_percent_def mean3_def exact_def)

lemma imbalance_example:
  assumes fr: "float_rounding rnd"
  shows "\<bar>imbalance_percent rnd 130 120 110 - 556 / 100\<bar> < 1 / 100"
proof -
  have r10: "rnd 10 = 10" using rnd_int [OF fr, of 10] by simp
  have rm10: "rnd (- 10) = - 10" using rnd_int [OF fr, of "- 10"] by simp
  have r0: "rnd 0 = 0" by (rule rnd_0 [OF fr])
  have r20: "rnd 20 = 20" using rnd_int [OF fr, of 20] by simp
  have m: "mean3 rnd \<bar>rnd (130 - 120)\<bar> \<bar>rnd (120 - 120)\<bar> \<bar>rnd (110 - 120)\<bar> = rnd (20 / 3)"
    by (simp add: mean3_def r10 rm10 r0 r20)
  have a: "(20 / 3) * (999999 / 1000000) \<le> rnd (20 / 3)" "rnd (20 / 3) \<le> (20 / 3) * (1000001 / 1000000)"
    using rnd_between [OF fr, of "20 / 3" "20 / 3" "20 / 3"] by simp_all
  have b: "(5555 / 100000) * (999999 / 1000000) \<le> rnd (rnd (20 / 3) / 120)"
          "rnd (rnd (20 / 3) / 120) \<le> (5556 / 100000) * (1000001 / 1000000)"
    using a rnd_between [OF fr, of "5555 / 100000" "rnd (20 / 3) / 120" "5556 / 100000"] by simp_all
  have c: "(5554 / 1000) * (999999 / 1000000) \<le> rnd (rnd (rnd (20 / 3) / 120) * 100)"
          "rnd (rnd (rnd (20 / 3) / 120) * 100) \<le> (5557 / 1000) * (1000001 / 1000000)"
    using b rnd_between [OF fr, of "5554 / 1000" "rnd (rnd (20 / 3) / 120) * 100" "5557 / 1000"] by simp_all
  have "imbalance_percent rnd 130 120 110 = rnd (rnd (rnd (20 / 3) / 120) * 100)"
    unfolding imbalance_percent_def m ..
  then show ?thesis using c by simp
qed

text \<open>
  C8. Without a valid relationship (or with a \<open>NULL\<close> handle) the imbalance is the
  negative sentinel \<open>- 1\<close>. With a valid relationship it is
  \<open>mean(|ab - 120|, |bc - 120|, |ca - 120|) / 120 * 100\<close> in the code's floating-point
  operations: never negative, within 0.01 of 5.56 at the angles (130, 120, 110), and in
  exact arithmetic the formula itself.
\<close>

theorem get_imbalance_spec:
  "pc814_threephase_get_imbalance rnd None = - 1 \<and>
   (\<not> valid (relationship t) \<longrightarrow> pc814_threephase_get_imbalance rnd (Some t) = - 1) \<and>
   (valid (relationship t) \<longrightarrow>
      pc814_threephase_get_imbalance rnd (Some t) =
        imbalance_percent rnd (phase_ab_angle (relationship t))
          (phase_bc_angle (relationship t)) (phase_ca_angle (relationship t))) \<and>
   (float_rounding rnd \<longrightarrow>
      0 \<le> imbalance_percent rnd ab bc ca \<and>
      \<bar>imbalance_percent rnd 130 120 110 - 556 / 100\<bar> < 1 / 100) \<and>
   imbalance_percent exact ab bc ca = (\<bar>ab - 120\<bar> + \<bar>bc - 120\<bar> + \<bar>ca - 120\<bar>) / 3 / 120 * 100"
  using get_imbalance_null [of rnd] get_imbalance_invalid [of t rnd] get_imbalance_valid [of t rnd]
    imbalance_percent_nonneg [of rnd ab bc ca] imbalance_example [of rnd]
    imbalance_percent_exact [of ab bc ca]
  by blast

theorem get_imbalance_spec_witness:
  "\<not> valid (relationship (example_threephase 130 120 110 PC814_SEQUENCE_UNKNOWN False)) \<and>
   valid (relationship (example_threephase 130 120 110 PC814_SEQUENCE_ERROR True)) \<and>
   float_rounding exact \<and>
   pc814_threephase_get_imbalance exact (Some (example_threephase 130 120 110 PC814_SEQUENCE_UNKNOWN False)) = - 1 \<and>
   pc814_threephase_get_imbalance exact (Some (example_threephase 130 120 110 PC814_SEQUENCE_ERROR True)) = 50 / 9"
  using get_imbalance_spec [of exact "example_threephase 130 120 110 PC814_SEQUENCE_UNKNOWN False" 130 120 110]
    get_imbalance_spec [of exact "example_threephase 130 120 110 PC814_SEQUENCE_ERROR True" 130 120 110]
  by (simp add: example_threephase_def float_rounding_exact)

subsection \<open>Configuration invariant\<close>

lemma process_capture_config:
  assumes "pc814_process_capture rnd (Some h) hw = Returned st handle' n"
  shows "\<exists>h'. handle' = Some h' \<and> pc814_handle_t.initialized h' = pc814_handle_t.initialized h \<and>
      expected_frequency h' = expected_frequency h \<and> frequency_tolerance h' = frequency_tolerance h"
  using assms
  by (auto simp add: pc814_process_capture_def Let_def update_data_fields
      record_valid_sample_fields record_invalid_sample_fields split: option.splits if_splits)

lemma init_config:
  "config_invariant handle \<Longrightarrow> config_invariant (fst (snd (pc814_init handle p pull edge)))"
  by (auto simp add: config_invariant_def pc814_init_def zero_handle_def split: option.splits)

lemma api_step_config:
  assumes "config_invariant handle" and "api_step rnd handle c = Some handle'"
  shows "config_invariant handle'"
proof (cases c)
  case (Init p pull edge)
  then show ?thesis using assms init_config by auto
next
  case (Process_Capture hw)
  from assms(1) obtain h where h: "handle = Some h"
    by (auto simp add: config_invariant_def split: option.splits)
  from assms(2) Process_Capture h obtain st n where
    "pc814_process_capture rnd (Some h) hw = Returned st handle' n"
    by (auto split: capture_outcome.splits)
  from process_capture_config [OF this] assms(1) h show ?thesis
    by (auto simp add: config_invariant_def)
next
  case (Set_Expected_Frequency freq)
  then show ?thesis using assms
    by (auto simp add: config_invariant_def pc814_set_expected_frequency_def split: option.splits if_splits)
next
  case (Set_Frequency_Tolerance tol)
  then show ?thesis using assms
    by (auto simp add: config_invariant_def pc814_set_frequency_tolerance_def split: option.splits if_splits)
next
  case Reset
  then show ?thesis using assms
    by (auto simp add: config_invariant_def pc814_reset_def split: option.splits)
next
  case (Set_Callback cb)
  then show ?thesis using assms
    by (auto simp add: config_invariant_def pc814_set_callback_def split: option.splits)
next
  case Reset_Statistics
  then show ?thesis using assms
    by (auto simp add: config_invariant_def pc814_reset_statistics_def split: option.splits)
qed

lemma api_run_config:
  "config_invariant handle \<Longrightarrow> api_run rnd handle calls = Some handle' \<Longrightarrow> config_invariant handle'"
proof (induction calls arbitrary: handle)
  case Nil
  then show ?case by simp
next
  case (Cons c cs)
  then show ?case by (auto split: option.splits dest: api_step_config)
qed

lemma set_expected_frequency_ignored:
  "\<not> (freq = 50 \<or> freq = 60) \<Longrightarrow> pc814_set_expected_frequency handle freq = handle"
  by (auto simp add: pc814_set_expected_frequency_def split: option.splits)

lemma set_frequency_tolerance_ignored:
  "\<not> (0 < tol \<and> tol \<le> 50) \<Longrightarrow> pc814_set_frequency_tolerance handle tol = handle"
  by (auto simp add: pc814_set_frequency_tolerance_def split: option.splits)

text \<open>
  C10. \<open>pc814_init\<close> leaves an initialized handle with expected frequency 50 and tolerance
  5; every call that writes to the handle keeps it initialized with the expected
  frequency in \<open>{50, 60}\<close> and the tolerance in \<open>(0, 50]\<close>; and a setter called with
  an argument outside its range returns with the handle as it was.
\<close>

theorem config_invariant_preserved:
  "config_invariant (fst (snd (pc814_init (Some h0) (Some p) pull edge))) \<and>
   map_option expected_frequency (fst (snd (pc814_init (Some h0) (Some p) pull edge))) = Some 50 \<and>
   map_option frequency_tolerance (fst (snd (pc814_init (Some h0) (Some p) pull edge))) = Some 5 \<and>
   (config_invariant handle \<and> api_run rnd handle calls = Some handle' \<longrightarrow>
      config_invariant handle') \<and>
   (\<not> (freq = 50 \<or> freq = 60) \<longrightarrow> pc814_set_expected_frequency handle freq = handle) \<and>
   (\<not> (0 < tolerance \<and> tolerance \<le> 50) \<longrightarrow>
      pc814_set_frequency_tolerance handle tolerance = handle)"
proof -
  have "config_invariant (fst (snd (pc814_init (Some h0) (Some p) pull edge)))"
    by (simp add: pc814_init_def zero_handle_def config_invariant_def)
  moreover have "map_option expected_frequency (fst (snd (pc814_init (Some h0) (Some p) pull edge))) = Some 50"
    by (simp add: pc814_init_def zero_handle_def)
  moreover have "map_option frequency_tolerance (fst (snd (pc814_init (Some h0) (Some p) pull edge))) = Some 5"
    by (simp add: pc814_init_def zero_handle_def)
  ultimately show ?thesis
    using api_run_config [of handle rnd calls handle'] set_expected_frequency_ignored [of freq handle]
      set_frequency_tolerance_ignored [of tolerance handle]
    by blast
qed

theorem config_invariant_preserved_witness:
  "config_invariant (Some init_handle) \<and>
   api_run exact (Some init_handle)
      [Set_Expected_Frequency 55, Set_Frequency_Tolerance 75, Set_Expected_Frequency 60,
       Process_Capture \<lparr>capture_value = 1, timer_frequency = 1000000, time_us = 0\<rparr>,
       Set_Frequency_Tolerance 0]
     = Some (Some (init_handle\<lparr>last_capture_value := 1, expected_frequency := 60\<rparr>)) \<and>
   config_invariant (Some (init_handle\<lparr>last_capture_value := 1, expected_frequency := 60\<rparr>)) \<and>
   pc814_set_expected_frequency (Some init_handle) 55 = Some init_handle \<and>
   pc814_set_frequency_tolerance (Some init_handle) 75 = Some init_handle"
  using config_invariant_preserved
      [of init_handle example_port PC814_PULL_UP PC814_EDGE_RISING "Some init_handle" exact
        "[Set_Expected_Frequency 55, Set_Frequency_Tolerance 75, Set_Expected_Frequency 60,
          Process_Capture \<lparr>capture_value = 1, timer_frequency = 1000000, time_us = 0\<rparr>,
          Set_Frequency_Tolerance 0]"
        "Some (init_handle\<lparr>last_capture_value := 1, expected_frequency := 60\<rparr>)" 55 75]
  by (simp add: config_invariant_def init_handle_def pc814_set_expected_frequency_def
      pc814_set_frequency_tolerance_def pc814_process_capture_def example_port_def)

subsection \<open>Statistics invariants\<close>

lemma process_capture_counts:
  assumes "pc814_process_capture rnd (Some h) hw = Returned st (Some h') n"
    and "counts_agree h"
  shows "counts_agree h'"
  using assms
  by (auto simp add: pc814_process_capture_def Let_def counts_agree_def update_data_fields
      record_valid_sample_fields record_invalid_sample_fields split: option.splits if_splits)

text \<open>The counter identity holds after every sequence of capture calls.\<close>

lemma captures_counts:
  "counts_agree h \<Longrightarrow> captures rnd h rs = Some h' \<Longrightarrow> counts_agree h'"
proof (induction rs arbitrary: h)
  case Nil
  then show ?case by simp
next
  case (Cons r rs)
  then show ?case
    by (auto split: capture_outcome.splits option.splits dest: process_capture_counts)
qed

lemma init_counts: "counts_agree init_handle"
  by (simp add: counts_agree_def init_handle_def zero_statistics_def)

lemma process_capture_cases:
  assumes "pc814_process_capture rnd (Some h) hw = Returned st handle' n"
  obtains
    (rejected) "st \<noteq> PC814_OK" "handle' = Some h"
  | (first) "st = PC814_OK" "last_capture_value h = 0"
      "handle' = Some (h\<lparr>last_capture_value := capture_value hw,
                          last_capture_time := (if get_time_us (the (port h)) then time_us hw else 0)\<rparr>)"
  | (valid_sample) p f t where "st = PC814_OK" "last_capture_value h \<noteq> 0" "p \<noteq> 0"
      "handle' = Some ((record_valid_sample rnd (update_data h p f t True) p f)
                         \<lparr>last_capture_value := capture_value hw, last_capture_time := t\<rparr>)"
  | (invalid_sample) p f t where "st = PC814_OK" "last_capture_value h \<noteq> 0" "p \<noteq> 0"
      "handle' = Some ((record_invalid_sample (update_data h p f t False))
                         \<lparr>last_capture_value := capture_value hw, last_capture_time := t\<rparr>)"
  using assms
  by (auto simp add: pc814_process_capture_def Let_def split: option.splits if_splits)

lemma length_le_sum_list: "(\<forall>p \<in> set ps. 0 < p) \<Longrightarrow> length ps \<le> sum_list (ps :: nat list)"
  by (induction ps) auto

lemma stats_match_valid:
  assumes m: "stats_match ps h" and p: "p \<noteq> 0" and b: "sum_list ps + unat p < 2 ^ 32"
  shows "stats_match (ps @ [unat p])
           ((record_valid_sample rnd (update_data h p f t v) p f)
              \<lparr>last_capture_value := c, last_capture_time := t'\<rparr>)"
proof -
  have pos: "\<forall>q \<in> set ps. 0 < q" and s: "unat (period_sum h) = sum_list ps"
    and n: "unat (period_count h) = length ps"
    using m by (simp_all add: stats_match_def)
  have up: "0 < unat p" using p by (simp add: unat_gt_0)
  have len: "length ps + 1 < 2 ^ 32" using length_le_sum_list [OF pos] b up by linarith
  have s': "unat (period_sum h + p) = sum_list ps + unat p"
    using b s by (simp add: unat_add_lem [THEN iffD1])
  have n': "unat (period_count h + 1) = length ps + 1"
    using len n by (simp add: unat_add_lem [THEN iffD1])
  then have c0: "period_count h + 1 > 0" by (simp add: word_greater_zero_iff unat_eq_zero [symmetric] del: unat_eq_zero)
  have avg: "unat ((period_sum h + p) div (period_count h + 1)) = (sum_list ps + unat p) div (length ps + 1)"
    by (simp add: unat_div s' n')
  show ?thesis
  proof (cases "ps = []")
    case True
    then have "min_period_us (statistics h) = 0" "max_period_us (statistics h) = 0"
      using m by (simp_all add: stats_match_def)
    then show ?thesis
      using True s' n' c0 avg up p
      by (simp add: stats_match_def record_valid_sample_fields update_data_fields word_greater_zero_iff)
  next
    case False
    then have mn: "unat (min_period_us (statistics h)) = Min (set ps)"
      and mx: "unat (max_period_us (statistics h)) = Max (set ps)"
      using m by (simp_all add: stats_match_def)
    have "0 < Min (set ps)" using pos False by simp
    then have mn0: "min_period_us (statistics h) \<noteq> 0" using mn by (metis unat_0 less_numeral_extra(3))
    define mn' where "mn' = (if min_period_us (statistics h) = 0 \<or> p < min_period_us (statistics h)
                   then p else min_period_us (statistics h))"
    define mx' where "mx' = (if p > max_period_us (statistics h) then p
                   else max_period_us (statistics h))"
    have a: "unat mn' = Min (set (ps @ [unat p]))"
    proof -
      have "Min (insert (unat p) (set ps)) = min (unat p) (Min (set ps))"
        using False by (simp add: Min_insert)
      then show ?thesis using mn mn0 unfolding mn'_def
        by (cases "p < min_period_us (statistics h)") (simp_all add: word_less_nat_alt min_def)
    qed
    have b': "unat mx' = Max (set (ps @ [unat p]))"
    proof -
      have "Max (insert (unat p) (set ps)) = max (unat p) (Max (set ps))"
        using False by (simp add: Max_insert)
      then show ?thesis using mx unfolding mx'_def
        by (cases "p > max_period_us (statistics h)") (simp_all add: word_less_nat_alt max_def)
    qed
    have f1: "min_period_us (statistics (record_valid_sample rnd (update_data h p f t v) p f)) = mn'"
      and f2: "max_period_us (statistics (record_valid_sample rnd (update_data h p f t v) p f)) = mx'"
      unfolding mn'_def mx'_def by (simp_all add: record_valid_sample_fields update_data_fields)
    have f3: "avg_period_us (statistics (record_valid_sample rnd (update_data h p f t v) p f))
               = (period_sum h + p) div (period_count h + 1)"
      using c0 by (simp add: record_valid_sample_fields update_data_fields)
    show ?thesis
      using s' n' avg up pos a b'
      by (simp add: stats_match_def f1 f2 f3 record_valid_sample_fields(1,2) update_data_fields)
  qed
qed

lemma stats_match_invalid:
  "stats_match ps h \<Longrightarrow>
   stats_match ps ((record_invalid_sample (update_data h p f t v))
                     \<lparr>last_capture_value := c, last_capture_time := t'\<rparr>)"
  by (simp add: stats_match_def record_invalid_sample_fields update_data_fields)

lemma stats_match_first:
  "stats_match ps h \<Longrightarrow>
   stats_match ps (h\<lparr>last_capture_value := c, last_capture_time := t'\<rparr>)"
  by (simp add: stats_match_def)

lemma captures_stats_match:
  "stats_match ps h \<Longrightarrow> captures rnd h rs = Some h' \<Longrightarrow>
   sum_list (ps @ valid_periods rnd h rs) < 2 ^ 32 \<Longrightarrow>
   stats_match (ps @ valid_periods rnd h rs) h'"
proof (induction rs arbitrary: ps h)
  case Nil
  then show ?case by simp
next
  case (Cons r rs)
  from Cons.prems(2) obtain st h1 n where
    step: "pc814_process_capture rnd (Some h) r = Returned st (Some h1) n"
    and rest: "captures rnd h1 rs = Some h'"
    by (auto split: capture_outcome.splits option.splits)
  from step show ?case
  proof (cases rule: process_capture_cases)
    case rejected
    then have "valid_periods rnd h (r # rs) = valid_periods rnd h1 rs" using step by simp
    moreover have "stats_match ps h1" using rejected Cons.prems(1) by simp
    ultimately show ?thesis using Cons.IH [OF _ rest, of ps] Cons.prems(3) by simp
  next
    case first
    then have "valid_periods rnd h (r # rs) = valid_periods rnd h1 rs" using step by simp
    moreover have "stats_match ps h1" using first Cons.prems(1) by (simp add: stats_match_first)
    ultimately show ?thesis using Cons.IH [OF _ rest, of ps] Cons.prems(3) by simp
  next
    case (valid_sample p f t)
    then have vp: "valid_periods rnd h (r # rs) = unat p # valid_periods rnd h1 rs"
      using step by (simp add: sample_data_fields)
    with Cons.prems(3) have b: "sum_list ps + unat p < 2 ^ 32" by simp
    have "stats_match (ps @ [unat p]) h1"
      using valid_sample stats_match_valid [OF Cons.prems(1) valid_sample(3) b] by simp
    from Cons.IH [OF this rest] Cons.prems(3) vp show ?thesis by simp
  next
    case (invalid_sample p f t)
    then have "valid_periods rnd h (r # rs) = valid_periods rnd h1 rs"
      using step by (simp add: sample_data_fields)
    moreover have "stats_match ps h1"
      using invalid_sample Cons.prems(1) by (simp add: stats_match_invalid)
    ultimately show ?thesis using Cons.IH [OF _ rest, of ps] Cons.prems(3) by simp
  qed
qed

lemma sum_list_bounds:
  fixes ps :: "nat list"
  shows "(\<forall>x \<in> set ps. m \<le> x) \<Longrightarrow> m * length ps \<le> sum_list ps"
    and "(\<forall>x \<in> set ps. x \<le> M) \<Longrightarrow> sum_list ps \<le> M * length ps"
  by (induction ps) auto

lemma mean_between:
  fixes ps :: "nat list"
  assumes "ps \<noteq> []"
  shows "Min (set ps) \<le> sum_list ps div length ps \<and> sum_list ps div length ps \<le> Max (set ps)"
proof -
  have n: "0 < length ps" using assms by simp
  have "Min (set ps) * length ps \<le> sum_list ps" by (rule sum_list_bounds(1)) simp
  then have lo: "Min (set ps) \<le> sum_list ps div length ps"
    using n by (simp add: less_eq_div_iff_mult_less_eq)
  have "sum_list ps \<le> Max (set ps) * length ps" by (rule sum_list_bounds(2)) simp
  then have "sum_list ps div length ps \<le> (Max (set ps) * length ps) div length ps"
    by (rule div_le_mono)
  then have hi: "sum_list ps div length ps \<le> Max (set ps)" using n by simp
  show ?thesis using lo hi by simp
qed

lemma init_stats_match: "stats_match [] init_handle"
  by (simp add: stats_match_def init_handle_def zero_statistics_def)

text \<open>
  As long as the sum of the valid periods is below \<open>2 ^ 32\<close>, the average is their
  truncated mean and lies between the minimum and the maximum.
\<close>

lemma average_while_sum_fits:
  assumes run: "captures rnd init_handle rs = Some h'"
    and fits: "sum_list (valid_periods rnd init_handle rs) < 2 ^ 32"
    and some: "valid_periods rnd init_handle rs \<noteq> []"
  shows "unat (avg_period_us (statistics h'))
           = sum_list (valid_periods rnd init_handle rs) div length (valid_periods rnd init_handle rs)
         \<and> min_period_us (statistics h') \<le> avg_period_us (statistics h')
         \<and> avg_period_us (statistics h') \<le> max_period_us (statistics h')"
proof -
  have "stats_match ([] @ valid_periods rnd init_handle rs) h'"
    by (rule captures_stats_match [OF init_stats_match run]) (use fits in simp)
  then show ?thesis
    using some mean_between [OF some] by (simp add: stats_match_def word_le_nat_alt)
qed

subsection \<open>Statistics over a long run\<close>

lemma unat_of_nat_u32: "n < 4294967296 \<Longrightarrow> unat (of_nat n :: u32) = n"
  by (simp add: unat_of_nat)

lemma of_nat_u32_nonzero:
  assumes "0 < n" and "n < 4294967296" shows "(of_nat n :: u32) \<noteq> 0"
proof -
  have "unat (of_nat n :: u32) = n" using assms by (simp add: unat_of_nat_u32)
  then show ?thesis using assms by auto
qed

lemma edge_ticks:
  assumes "j < 200000000"
  shows "capture_period_ticks (of_nat (1 + 20 * j)) (of_nat (1 + 20 * Suc j)) = (20 :: u32)"
proof -
  have a: "unat (of_nat (1 + 20 * j) :: u32) = 1 + 20 * j"
    by (rule unat_of_nat_u32) (use assms in simp)
  have b: "unat (of_nat (1 + 20 * Suc j) :: u32) = 1 + 20 * Suc j"
    by (rule unat_of_nat_u32) (use assms in simp)
  have "(of_nat (1 + 20 * j) :: u32) < of_nat (1 + 20 * Suc j)"
    unfolding word_less_nat_alt a b by simp
  then have "capture_period_ticks (of_nat (1 + 20 * j)) (of_nat (1 + 20 * Suc j))
      = (of_nat (1 + 20 * Suc j) :: u32) - of_nat (1 + 20 * j)"
    by (rule capture_period_ticks_forward)
  also have "\<dots> = 20" by simp
  finally show ?thesis .
qed

lemma validate_equal:
  assumes "rnd 0 = 0" and "f \<noteq> 0" and "0 \<le> tol" shows "validate_frequency rnd f f tol"
  using assms by (simp add: validate_frequency_def)

lemma u32_consts: "((20::u32) * 1000000) div 1000 = 20000" "(1000000::u32) div 20000 = 50"
  by simp_all

lemma steady_step:
  assumes st: "steady j h" and j: "j < 200000000" and r0: "rnd 0 = 0"
  shows "\<exists>h' n. pc814_process_capture rnd (Some h) (edge_reading (Suc j))
                  = Returned PC814_OK (Some h') n \<and> steady (Suc j) h'"
proof -
  let ?hw = "edge_reading (Suc j)"
  let ?t = "time_us ?hw"
  let ?h2 = "record_valid_sample rnd (update_data h 20000 50 ?t True) 20000 50"
  let ?h' = "?h2\<lparr>last_capture_value := capture_value ?hw, last_capture_time := ?t\<rparr>"
  have cv: "capture_value ?hw = of_nat (1 + 20 * Suc j)" by (simp add: edge_reading_def)
  have cv0: "capture_value ?hw \<noteq> 0"
    unfolding cv by (rule of_nat_u32_nonzero) (use j in simp_all)
  have lc: "last_capture_value h = of_nat (1 + 20 * j)" using st by (simp add: steady_def)
  have lc0: "last_capture_value h \<noteq> 0"
    unfolding lc by (rule of_nat_u32_nonzero) (use j in simp_all)
  have ticks: "capture_period_ticks (last_capture_value h) (capture_value ?hw) = 20"
    unfolding lc cv by (rule edge_ticks [OF j])
  have pus: "(capture_period_ticks (last_capture_value h) (capture_value ?hw) * 1000000)
           div timer_frequency ?hw = 20000"
    unfolding ticks by (simp add: edge_reading_def)
  have ini: "pc814_handle_t.initialized h" and prt: "port h = Some example_port"
    and ef: "expected_frequency h = 50" and ft: "frequency_tolerance h = 5"
    using st by (simp_all add: steady_def)
  have val: "validate_frequency rnd 50 50 5"
    using r0 validate_equal [of rnd 50 5] by simp
  have tf: "timer_frequency ?hw \<noteq> 0" by (simp add: edge_reading_def)
  have run0: "pc814_process_capture rnd (Some h) ?hw =
     (let current_time = (if get_time_us example_port then time_us ?hw else 0);
          freq_hz = 1000000 div 20000;
          freq_valid = validate_frequency rnd freq_hz
             (expected_frequency h) (frequency_tolerance h);
          h1 = update_data h 20000 freq_hz current_time freq_valid;
          h2 = (if freq_valid then record_valid_sample rnd h1 20000 freq_hz
                else record_invalid_sample h1)
      in Returned PC814_OK
           (Some (h2\<lparr>last_capture_value := capture_value ?hw,
                      last_capture_time := current_time\<rparr>))
           (if callback h2 \<and> freq_valid then Some (data h2) else None))"
    by (rule process_capture_sample [OF ini prt _ _ cv0 tf lc0 pus])
       (simp_all add: example_port_def)
  have gt: "get_time_us example_port" by (simp add: example_port_def)
  have run: "pc814_process_capture rnd (Some h) ?hw =
      Returned PC814_OK (Some ?h') (if callback ?h2 then Some (data ?h2) else None)"
    unfolding run0 by (simp add: Let_def gt ef ft val)
  have "(of_nat (Suc j) :: u32) \<noteq> 0"
    by (rule of_nat_u32_nonzero) (use j in simp_all)
  then have cnt: "(of_nat j + 1 :: u32) \<noteq> 0" "(1 + of_nat j :: u32) \<noteq> 0"
    by (simp_all add: add.commute)
  have "steady (Suc j) ?h'"
    using st cnt
    by (simp add: steady_def period_statistics_def Let_def record_valid_sample_fields
        update_data_fields cv word_greater_zero_iff algebra_simps)
  with run show ?thesis by blast
qed

lemma captures_steady:
  assumes "rnd 0 = 0"
  shows "steady j h \<Longrightarrow> j + n \<le> 200000000 \<Longrightarrow>
     \<exists>h'. captures rnd h (map edge_reading [Suc j..<Suc j + n]) = Some h' \<and> steady (j + n) h'"
proof (induction n arbitrary: j h)
  case 0
  then show ?case by simp
next
  case (Suc n)
  from Suc.prems have j: "j < 200000000" by simp
  from steady_step [where rnd = rnd, OF Suc.prems(1) j assms] obtain h1 m where
    step: "pc814_process_capture rnd (Some h) (edge_reading (Suc j)) = Returned PC814_OK (Some h1) m"
    and st1: "steady (Suc j) h1" by blast
  from Suc.prems have "Suc j + n \<le> 200000000" by simp
  from Suc.IH [OF st1 this] obtain h' where
    rest: "captures rnd h1 (map edge_reading [Suc (Suc j)..<Suc (Suc j) + n]) = Some h'"
    and st': "steady (Suc j + n) h'" by blast
  have "[Suc j..<Suc j + Suc n] = Suc j # [Suc (Suc j)..<Suc (Suc j) + n]"
    by (simp add: upt_conv_Cons)
  then have "captures rnd h (map edge_reading [Suc j..<Suc j + Suc n]) = Some h'"
    using step rest by simp
  then show ?case using st' by auto
qed

lemma first_edge:
  "pc814_process_capture rnd (Some init_handle) (edge_reading 0) =
     Returned PC814_OK (Some (init_handle\<lparr>last_capture_value := 1\<rparr>)) None"
  by (simp add: pc814_process_capture_def init_handle_def example_port_def edge_reading_def)

lemma steady_first: "steady 0 (init_handle\<lparr>last_capture_value := 1\<rparr>)"
  by (simp add: steady_def init_handle_def period_statistics_def zero_statistics_def)

lemma mains_edges_steady:
  assumes "rnd 0 = 0" and "n \<le> 200000000"
  shows "\<exists>h'. captures rnd init_handle (mains_edges (Suc n)) = Some h' \<and> steady n h'"
proof -
  from captures_steady [where rnd = rnd, OF assms(1) steady_first, of n] assms(2) obtain h' where
    run: "captures rnd (init_handle\<lparr>last_capture_value := 1\<rparr>) (map edge_reading [Suc 0..<Suc 0 + n]) = Some h'"
    and st: "steady n h'" by auto
  have "mains_edges (Suc n) = edge_reading 0 # map edge_reading [Suc 0..<Suc 0 + n]"
    by (simp add: mains_edges_def upt_conv_Cons del: upt_Suc)
  then have "captures rnd init_handle (mains_edges (Suc n)) = Some h'"
    using first_edge [of rnd] run by simp
  then show ?thesis using st by blast
qed

lemma wrapped_average: "(of_nat (20000 * 214749) :: u32) div of_nat 214749 = 0"
  by simp

text \<open>
  C7. The claim: after every sequence of capture calls the valid and the invalid count
  add up to the total and, once a valid sample exists,
  \<open>min_period_us \<le> avg_period_us \<le> max_period_us\<close> with the average the truncated mean
  of the valid periods. The counter identity holds (\<open>captures_counts\<close>), and the rest
  holds while the sum of the valid periods is below \<open>2 ^ 32\<close>
  (\<open>average_while_sum_fits\<close>). But \<open>period_sum\<close> is a \<open>uint32_t\<close>: after 214749 valid
  samples of 20000 microseconds, 72 minutes of 50 Hz mains, it has wrapped to 12704, and
  the average is \<open>12704 / 214749 = 0\<close> while minimum and maximum are 20000.
\<close>

theorem period_sum_overflow:
  "map_option period_statistics (captures exact init_handle (mains_edges 214750))
     = Some (214749, 214749, 0, 20000, 0, 20000)"
proof -
  from mains_edges_steady [of exact 214749] obtain h' where
    run: "captures exact init_handle (mains_edges (Suc 214749)) = Some h'"
    and st: "steady 214749 h'" by (auto simp add: exact_def)
  have "period_statistics h' = (214749, 214749, 0, 20000, 0, 20000)"
    using st wrapped_average by (simp add: steady_def)
  moreover have "Suc 214749 = 214750" by simp
  ultimately show ?thesis using run by simp
qed

theorem period_sum_overflow_witness:
  "captures exact init_handle (mains_edges 214750) \<noteq> None"
  using period_sum_overflow by auto

end
